theory Spec2Isabelle
  imports Complex_Main "HOL-Library.Word"
begin

section \<open>Data model of serversInfo.go\<close>

text \<open>
  Go values are embedded as follows. A byte is an 8-bit word, a byte slice a list of
  bytes, a Go string a \<open>string\<close>. \<open>time.Duration\<close> and \<open>time.Time\<close> are
  integers counting nanoseconds (the comparisons made by the code do not depend on the
  64-bit saturation of \<open>time.Since\<close>). A nullable pointer is an \<open>option\<close>. A
  \<open>float64\<close> is idealised as a real number. The reader/writer locks are not modelled:
  every function is read as one uninterrupted run.
\<close>

type_synonym byte = "8 word"
type_synonym duration = int
type_synonym instant = int
type_synonym UDPAddr = string
type_synonym TCPAddr = string
type_synonym IP = "byte list"

text \<open>
  The error values the two files create with \<open>errors.New\<close> and \<open>fmt.Errorf\<close>, and
  \<open>ErrExternal\<close> for an error handed up by a collaborator (transport, resolver,
  policy module, DNS codec).
\<close>

datatype error =
    ErrUnsupportedProtocol
  | ErrTLSHandshakeFailed
  | ErrCertificateHashNotFound "byte list" string
  | ErrUnexpectedResponse
  | ErrEmptyRelayList string
  | ErrUndefinedRelay string string
  | ErrInvalidRelay string string
  | ErrUnexpectedNumberOfQuestions
  | ErrExternal string

text \<open>
  A call either returns, or the process ends: \<open>dlog.Fatalf\<close> exits, and an index out
  of range panics.
\<close>

datatype abort = FatalExit | Panic

datatype 'a outcome = Return 'a | Abort abort

datatype StampProtoType =
    StampProtoTypePlain
  | StampProtoTypeDNSCrypt
  | StampProtoTypeDoH
  | StampProtoTypeTLS
  | StampProtoTypeDNSCryptRelay

record ServerStamp =
  ServerAddrStr :: string
  ServerPk :: "byte list"
  Hashes :: "byte list list"
  ProviderName :: string
  Path :: string
  Props :: nat
  Proto :: StampProtoType

record RegisteredServer =
  Name :: string
  Stamp :: ServerStamp
  Description :: string

record URL =
  Scheme :: string
  Host :: string
  urlPath :: string

text \<open>
  Modelled from the spec: \<open>ewma.MovingAverage\<close> is a type of an external library, of
  which the source only shows the calls \<open>NewMovingAverage\<close>, \<open>Set\<close>, \<open>Add\<close> and
  \<open>Value\<close>. The specification describes it as the Brown moving average
  \<open>value := (value * (N - 1) + sample) / N\<close> with a negative value for "no value yet";
  \<open>N\<close> is the argument of \<open>NewMovingAverage\<close>.
\<close>

record MovingAverage =
  decay :: real
  ewmaValue :: real

definition NewMovingAverage :: "real \<Rightarrow> MovingAverage" where
  "NewMovingAverage age = \<lparr>decay = age, ewmaValue = - 1\<rparr>"

definition ewmaSet :: "real \<Rightarrow> MovingAverage \<Rightarrow> MovingAverage" where
  "ewmaSet v e = e\<lparr>ewmaValue := v\<rparr>"

definition ewmaAdd :: "real \<Rightarrow> MovingAverage \<Rightarrow> MovingAverage" where
  "ewmaAdd sample e = e\<lparr>ewmaValue := (ewmaValue e * (decay e - 1) + sample) / decay e\<rparr>"

definition RTTEwmaDecay :: real where
  "RTTEwmaDecay = 10"

text \<open>
  Modelled from the spec: \<open>MinF\<close> and \<open>MaxF\<close> are helpers of another file of the
  package, the "numeric min/max on floats" of the specification's shared utilities.
\<close>

definition MinF :: "real \<Rightarrow> real \<Rightarrow> real" where
  "MinF a b = (if a < b then a else b)"

definition MaxF :: "real \<Rightarrow> real \<Rightarrow> real" where
  "MaxF a b = (if a > b then a else b)"

record ServerInfo =
  siProto :: StampProtoType
  MagicQuery :: "byte list"
  siServerPk :: "byte list"
  SharedKey :: "byte list"
  CryptoConstruction :: nat
  siName :: string
  siTimeout :: duration
  siURL :: "URL option"
  HostName :: string
  siUDPAddr :: "UDPAddr option"
  siTCPAddr :: "TCPAddr option"
  RelayUDPAddr :: "UDPAddr option"
  RelayTCPAddr :: "TCPAddr option"
  lastActionTS :: instant
  rtt :: "MovingAverage option"
  initialRtt :: int
  useGet :: bool

datatype LBStrategy =
    LBStrategyNone
  | LBStrategyP2
  | LBStrategyPH
  | LBStrategyFirst
  | LBStrategyRandom

definition DefaultLBStrategy :: LBStrategy where
  "DefaultLBStrategy = LBStrategyP2"

record ServersInfo =
  inner :: "ServerInfo list"
  registeredServers :: "RegisteredServer list"
  LBStrategy :: LBStrategy
  LBEstimator :: bool

definition NewServersInfo :: ServersInfo where
  "NewServersInfo =
     \<lparr>inner = [], registeredServers = [], LBStrategy = DefaultLBStrategy, LBEstimator = True\<rparr>"

text \<open>The zero \<open>time.Time\<close> (1 January of year 1), in nanoseconds before the Unix epoch.\<close>

definition zeroTime :: instant where
  "zeroTime = - 62135596800 * 1000000000"

definition Second :: duration where
  "Second = 1000000000"

definition Minute :: duration where
  "Minute = 60 * Second"

text \<open>The zero value \<open>ServerInfo{}\<close>, on which the fetch functions set their fields.\<close>

definition emptyServerInfo :: ServerInfo where
  "emptyServerInfo =
     \<lparr>siProto = StampProtoTypePlain, MagicQuery = replicate 8 0, siServerPk = replicate 32 0,
      SharedKey = replicate 32 0, CryptoConstruction = 0, siName = [], siTimeout = 0,
      siURL = None, HostName = [], siUDPAddr = None, siTCPAddr = None, RelayUDPAddr = None,
      RelayTCPAddr = None, lastActionTS = zeroTime, rtt = None, initialRtt = 0,
      useGet = False\<rparr>"

subsection \<open>The collaborators\<close>

record CertInfo =
  ciMagicQuery :: "byte list"
  ciServerPk :: "byte list"
  ciSharedKey :: "byte list"
  ciCryptoConstruction :: nat

record Certificate =
  RawTBSCertificate :: "byte list"
  Subject :: string

record ConnectionState =
  HandshakeComplete :: bool
  NegotiatedProtocol :: string
  PeerCertificates :: "Certificate list"

text \<open>
  A response body is a stream: it delivers \<open>bodyData\<close> and then ends, with the read
  error \<open>bodyErr\<close> if there is one.
\<close>

record ResponseBody =
  bodyData :: "byte list"
  bodyErr :: "error option"

record HTTPResponse =
  TLS :: "ConnectionState option"
  Body :: ResponseBody

text \<open>
  Everything the two files call and do not define is a field of the environment: the
  transport, the resolver, the random generator, the clock, the stamp parser, the helpers
  and constants of the package's other files. \<open>'w\<close> is the state of the world outside
  (network, caches, generator); a call that can change it returns the new one.
\<close>

record 'w Env =
  randIntn :: "'w \<Rightarrow> nat \<Rightarrow> nat \<times> 'w"
  timeNow :: "'w \<Rightarrow> instant"
  NewServerStampFromString :: "string \<Rightarrow> error + ServerStamp"
  ResolveUDPAddr :: "'w \<Rightarrow> string \<Rightarrow> (error + UDPAddr) \<times> 'w"
  ResolveTCPAddr :: "'w \<Rightarrow> string \<Rightarrow> (error + TCPAddr) \<times> 'w"
  hexDecodeString :: "byte list \<Rightarrow> error + byte list"
  FetchCurrentDNSCryptCert ::
    "'w \<Rightarrow> string \<Rightarrow> string \<Rightarrow> byte list \<Rightarrow> string \<Rightarrow> string \<Rightarrow> bool \<Rightarrow>
     UDPAddr option \<Rightarrow> TCPAddr option \<Rightarrow> (error + CertInfo \<times> int) \<times> 'w"
  ExtractHostAndPort :: "string \<Rightarrow> int \<Rightarrow> string \<times> int"
  ParseIP :: "string \<Rightarrow> IP option"
  saveCachedIP :: "'w \<Rightarrow> string \<Rightarrow> IP \<Rightarrow> duration \<Rightarrow> 'w"
  DoHQuery ::
    "'w \<Rightarrow> bool \<Rightarrow> URL \<Rightarrow> byte list \<Rightarrow> duration \<Rightarrow> (error + HTTPResponse \<times> duration) \<times> 'w"
  sha256Sum :: "byte list \<Rightarrow> byte list"
  MinDNSPacketSize :: int
  MaxDNSPacketSize :: int
  MaxHTTPBodyLength :: int

record Proxy =
  Routes :: "(string \<rightharpoonup> string list) option"
  RegisteredRelays :: "RegisteredServer list"
  RegisteredServers :: "RegisteredServer list"
  Timeout :: duration
  MainProto :: string
  ShowCerts :: bool

text \<open>\<open>rand.Intn(n)\<close> for \<open>n > 0\<close>: a number below \<open>n\<close>.\<close>

definition Intn :: "'w Env \<Rightarrow> 'w \<Rightarrow> nat \<Rightarrow> nat \<times> 'w" where
  "Intn env w n = (case randIntn env w n of (r, w') \<Rightarrow> (r mod n, w'))"

text \<open>Go's integer division truncates towards zero.\<close>

definition goQuot :: "int \<Rightarrow> int \<Rightarrow> int" where
  "goQuot a b = (if (a < 0) = (b < 0) then \<bar>a\<bar> div \<bar>b\<bar> else - (\<bar>a\<bar> div \<bar>b\<bar>))"

text \<open>
  \<open>ioutil.ReadAll(io.LimitReader(body, limit))\<close>: the limited reader ends after
  \<open>limit\<close> bytes without reading further; before that, the end or the error of the
  body is what \<open>ReadAll\<close> meets.
\<close>

definition ReadAllLimited :: "int \<Rightarrow> ResponseBody \<Rightarrow> error + byte list" where
  "ReadAllLimited limit body =
     (if limit \<le> int (length (bodyData body)) then Inr (take (nat limit) (bodyData body))
      else (case bodyErr body of None \<Rightarrow> Inr (bodyData body) | Some e \<Rightarrow> Inl e))"

text \<open>
  \<open>sort.SliceStable(slice, less)\<close> of the Go library, as the insertion sort that keeps
  the order of the elements \<open>less\<close> does not separate.
\<close>

fun insertStable :: "('a \<Rightarrow> 'a \<Rightarrow> bool) \<Rightarrow> 'a \<Rightarrow> 'a list \<Rightarrow> 'a list" where
  "insertStable lt x [] = [x]"
| "insertStable lt x (y # ys) =
     (if lt y x then y # insertStable lt x ys else x # y # ys)"

definition SliceStable :: "('a \<Rightarrow> 'a \<Rightarrow> bool) \<Rightarrow> 'a list \<Rightarrow> 'a list" where
  "SliceStable lt xs = foldr (insertStable lt) xs []"

section \<open>The registry and the live pool\<close>

text \<open>
  The loops \<open>for i, x := range xs { if x.Name == name { ...; break } }\<close>: the index of
  the first element with that name.
\<close>

fun findName :: "('a \<Rightarrow> string) \<Rightarrow> string \<Rightarrow> 'a list \<Rightarrow> nat option" where
  "findName nm name [] = None"
| "findName nm name (x # xs) =
     (if nm x = name then Some 0 else map_option Suc (findName nm name xs))"

definition registerServer ::
  "string \<Rightarrow> ServerStamp \<Rightarrow> ServersInfo \<Rightarrow> error option \<times> ServersInfo" where
  "registerServer name stamp serversInfo =
     (let newRegisteredServer = \<lparr>Name = name, Stamp = stamp, Description = []\<rparr> in
      case findName Name name (registeredServers serversInfo) of
        Some i \<Rightarrow>
          (None, serversInfo\<lparr>registeredServers :=
                   (registeredServers serversInfo)[i := newRegisteredServer]\<rparr>)
      | None \<Rightarrow>
          (None, serversInfo\<lparr>registeredServers :=
                   registeredServers serversInfo @ [newRegisteredServer]\<rparr>))"


section \<open>Relay resolution\<close>

text \<open>
  The two loops of \<open>route\<close> over the relay registry and the server registry: each
  assigns the stamp of the first entry with the relay's name and breaks, and leaves the
  variable as it was when there is none.
\<close>

fun lookupStamp ::
  "string \<Rightarrow> RegisteredServer list \<Rightarrow> ServerStamp option \<Rightarrow> ServerStamp option" where
  "lookupStamp relayName [] cur = cur"
| "lookupStamp relayName (registeredServer # rest) cur =
     (if Name registeredServer = relayName then Some (Stamp registeredServer)
      else lookupStamp relayName rest cur)"

text \<open>The chain of lines 248 to 268 that sets \<open>relayCandidateStamp\<close>.\<close>

definition relayCandidateStamp ::
  "'w Env \<Rightarrow> Proxy \<Rightarrow> string \<Rightarrow> 'w \<Rightarrow> ServerStamp option \<times> 'w" where
  "relayCandidateStamp env proxy relayName w =
     (case NewServerStampFromString env relayName of
        Inr relayStamp \<Rightarrow> (Some relayStamp, w)
      | Inl _ \<Rightarrow>
          (case ResolveUDPAddr env w relayName of
             (Inr _, w') \<Rightarrow>
               (Some \<lparr>ServerAddrStr = relayName, ServerPk = [], Hashes = [],
                      ProviderName = [], Path = [], Props = 0,
                      Proto = StampProtoTypeDNSCryptRelay\<rparr>, w')
           | (Inl _, w') \<Rightarrow>
               (lookupStamp relayName (RegisteredServers proxy)
                  (lookupStamp relayName (RegisteredRelays proxy) None), w')))"

text \<open>Lines 272 to 284: the addresses of the relay the stamp names.\<close>

definition resolveRelayStamp ::
  "'w Env \<Rightarrow> string \<Rightarrow> string \<Rightarrow> ServerStamp \<Rightarrow> 'w \<Rightarrow>
   (error + UDPAddr option \<times> TCPAddr option) \<times> 'w" where
  "resolveRelayStamp env relayName name st w =
     (if Proto st = StampProtoTypeDNSCrypt \<or> Proto st = StampProtoTypeDNSCryptRelay
      then
        (case ResolveUDPAddr env w (ServerAddrStr st) of
           (Inl err, w1) \<Rightarrow> (Inl err, w1)
         | (Inr relayUDPAddr, w1) \<Rightarrow>
             (case ResolveTCPAddr env w1 (ServerAddrStr st) of
                (Inl err, w2) \<Rightarrow> (Inl err, w2)
              | (Inr relayTCPAddr, w2) \<Rightarrow>
                  (Inr (Some relayUDPAddr, Some relayTCPAddr), w2)))
      else (Inl (ErrInvalidRelay relayName name), w))"

definition route ::
  "'w Env \<Rightarrow> Proxy \<Rightarrow> string \<Rightarrow> ServerStamp \<Rightarrow> 'w \<Rightarrow>
   (error + UDPAddr option \<times> TCPAddr option) \<times> 'w" where
  "route env proxy name stamp w =
     (case Routes proxy of
        None \<Rightarrow> (Inr (None, None), w)
      | Some routes \<Rightarrow>
          (case (case routes name of Some r \<Rightarrow> Some r | None \<Rightarrow> routes ''*'') of
             None \<Rightarrow> (Inr (None, None), w)
           | Some relayNames \<Rightarrow>
               (case (if length relayNames > 0
                      then (case Intn env w (length relayNames) of
                              (candidate, w1) \<Rightarrow> (relayNames ! candidate, w1))
                      else ([], w)) of
                  (relayName, w1) \<Rightarrow>
                    if length relayName = 0 then (Inl (ErrEmptyRelayList name), w1)
                    else
                      (case relayCandidateStamp env proxy relayName w1 of
                         (None, w2) \<Rightarrow> (Inl (ErrUndefinedRelay relayName name), w2)
                       | (Some st, w2) \<Rightarrow> resolveRelayStamp env relayName name st w2))))"

section \<open>Fetching the server information\<close>

definition PublicKeySize :: nat where
  "PublicKeySize = 32"

text \<open>
  Lines 288 to 295: a key that is not 32 bytes long is read as hexadecimal text, the
  colons removed; anything else is fatal.
\<close>

definition normalizeServerPk :: "'w Env \<Rightarrow> ServerStamp \<Rightarrow> ServerStamp outcome" where
  "normalizeServerPk env stamp =
     (if length (ServerPk stamp) \<noteq> PublicKeySize then
        (case hexDecodeString env (filter (\<lambda>c. c \<noteq> 0x3a) (ServerPk stamp)) of
           Inl _ \<Rightarrow> Abort FatalExit
         | Inr serverPk \<Rightarrow>
             if length serverPk \<noteq> PublicKeySize then Abort FatalExit
             else Return (stamp\<lparr>ServerPk := serverPk\<rparr>))
      else Return stamp)"

definition fetchDNSCryptServerInfo ::
  "'w Env \<Rightarrow> Proxy \<Rightarrow> string \<Rightarrow> ServerStamp \<Rightarrow> bool \<Rightarrow> 'w \<Rightarrow>
   ((error + ServerInfo) \<times> 'w) outcome" where
  "fetchDNSCryptServerInfo env proxy name stamp0 isNew w =
     (case normalizeServerPk env stamp0 of
        Abort a \<Rightarrow> Abort a
      | Return stamp \<Rightarrow>
          (case route env proxy name stamp w of
             (Inl err, w1) \<Rightarrow> Return (Inl err, w1)
           | (Inr (relayUDPAddr, relayTCPAddr), w1) \<Rightarrow>
               (case FetchCurrentDNSCryptCert env w1 name (MainProto proxy) (ServerPk stamp)
                       (ServerAddrStr stamp) (ProviderName stamp) isNew
                       relayUDPAddr relayTCPAddr of
                  (Inl err, w2) \<Rightarrow> Return (Inl err, w2)
                | (Inr (certInfo, rtt0), w2) \<Rightarrow>
                    (case ResolveUDPAddr env w2 (ServerAddrStr stamp) of
                       (Inl err, w3) \<Rightarrow> Return (Inl err, w3)
                     | (Inr remoteUDPAddr, w3) \<Rightarrow>
                         (case ResolveTCPAddr env w3 (ServerAddrStr stamp) of
                            (Inl err, w4) \<Rightarrow> Return (Inl err, w4)
                          | (Inr remoteTCPAddr, w4) \<Rightarrow>
                              Return (Inr (emptyServerInfo
                                \<lparr>siProto := StampProtoTypeDNSCrypt,
                                 MagicQuery := ciMagicQuery certInfo,
                                 siServerPk := ciServerPk certInfo,
                                 SharedKey := ciSharedKey certInfo,
                                 CryptoConstruction := ciCryptoConstruction certInfo,
                                 siName := name,
                                 siTimeout := Timeout proxy,
                                 siUDPAddr := Some remoteUDPAddr,
                                 siTCPAddr := Some remoteTCPAddr,
                                 RelayUDPAddr := relayUDPAddr,
                                 RelayTCPAddr := relayTCPAddr,
                                 initialRtt := rtt0\<rparr>), w4))))))"

text \<open>Lines 329 to 334: an IP literal in the stamp is handed to the transport's cache.\<close>

definition cacheStampIP :: "'w Env \<Rightarrow> ServerStamp \<Rightarrow> 'w \<Rightarrow> 'w" where
  "cacheStampIP env stamp w =
     (if length (ServerAddrStr stamp) > 0 then
        (case ExtractHostAndPort env (ServerAddrStr stamp) (- 1) of
           (ipOnly, _) \<Rightarrow>
             (case ParseIP env ipOnly of
                Some ip \<Rightarrow> saveCachedIP env w (ProviderName stamp) ip (- 1 * Second)
              | None \<Rightarrow> w))
      else w)"

definition probeBody :: "byte list" where
  "probeBody =
     [0xca, 0xfe, 0x01, 0x00, 0x00, 0x01, 0x00, 0x00, 0x00, 0x00, 0x00, 0x01, 0x00, 0x00,
      0x02, 0x00, 0x01, 0x00, 0x00, 0x29, 0x10, 0x00, 0x00, 0x00, 0x80, 0x00, 0x00, 0x00]"

text \<open>Lines 343 to 350: one POST, and one GET if it fails; the result is \<open>useGet\<close>.\<close>

definition dohProbe :: "'w Env \<Rightarrow> Proxy \<Rightarrow> URL \<Rightarrow> 'w \<Rightarrow> (error + bool) \<times> 'w" where
  "dohProbe env proxy url w =
     (case DoHQuery env w False url probeBody (Timeout proxy) of
        (Inr _, w1) \<Rightarrow> (Inr False, w1)
      | (Inl _, w1) \<Rightarrow>
          (case DoHQuery env w1 True url probeBody (Timeout proxy) of
             (Inl err, w2) \<Rightarrow> (Inl err, w2)
           | (Inr _, w2) \<Rightarrow> (Inr True, w2)))"

text \<open>
  Lines 366 to 387: the inner loop over the stamp's hashes for one certificate hash
  \<open>h\<close>, and the outer loop over the peer certificates. Both carry \<open>wantedHash\<close>,
  the last hash of 32 bytes that was compared.
\<close>

fun matchHashes :: "byte list \<Rightarrow> byte list list \<Rightarrow> byte list \<Rightarrow> bool \<times> byte list" where
  "matchHashes h [] wantedHash = (False, wantedHash)"
| "matchHashes h (hash # rest) wantedHash =
     (if length hash = 32 then
        (if h = hash then (True, hash) else matchHashes h rest hash)
      else matchHashes h rest wantedHash)"

fun matchCerts ::
  "'w Env \<Rightarrow> Certificate list \<Rightarrow> byte list list \<Rightarrow> byte list \<Rightarrow> bool \<times> byte list" where
  "matchCerts env [] hashes wantedHash = (False, wantedHash)"
| "matchCerts env (cert # rest) hashes wantedHash =
     (case matchHashes (sha256Sum env (RawTBSCertificate cert)) hashes wantedHash of
        (found, wantedHash') \<Rightarrow>
          if found then (True, wantedHash') else matchCerts env rest hashes wantedHash')"

definition byteAt :: "byte list \<Rightarrow> nat \<Rightarrow> byte outcome" where
  "byteAt bs i = (if i < length bs then Return (bs ! i) else Abort Panic)"

text \<open>
  The condition of lines 395 and 396, evaluated from left to right as \<open>||\<close> does; an
  index beyond the body panics.
\<close>

definition unexpectedResponse :: "'w Env \<Rightarrow> byte list \<Rightarrow> bool outcome" where
  "unexpectedResponse env respBody =
     (if int (length respBody) < MinDNSPacketSize env
         \<or> int (length respBody) > MaxDNSPacketSize env then Return True
      else
        (case byteAt respBody 0 of
           Abort a \<Rightarrow> Abort a
         | Return b0 \<Rightarrow>
             if b0 \<noteq> 0xca then Return True
             else
               (case byteAt respBody 1 of
                  Abort a \<Rightarrow> Abort a
                | Return b1 \<Rightarrow>
                    if b1 \<noteq> 0xfe then Return True
                    else
                      (case byteAt respBody 4 of
                         Abort a \<Rightarrow> Abort a
                       | Return b4 \<Rightarrow>
                           if b4 \<noteq> 0x00 then Return True
                           else
                             (case byteAt respBody 5 of
                                Abort a \<Rightarrow> Abort a
                              | Return b5 \<Rightarrow> Return (b5 \<noteq> 0x01))))))"

definition fetchDoHServerInfo ::
  "'w Env \<Rightarrow> Proxy \<Rightarrow> string \<Rightarrow> ServerStamp \<Rightarrow> bool \<Rightarrow> 'w \<Rightarrow>
   ((error + ServerInfo) \<times> 'w) outcome" where
  "fetchDoHServerInfo env proxy name stamp isNew w =
     (let url = \<lparr>Scheme = ''https'', Host = ProviderName stamp, urlPath = Path stamp\<rparr> in
      case dohProbe env proxy url (cacheStampIP env stamp w) of
        (Inl err, w2) \<Rightarrow> Return (Inl err, w2)
      | (Inr useGet0, w2) \<Rightarrow>
          (case DoHQuery env w2 useGet0 url probeBody (Timeout proxy) of
             (Inl err, w3) \<Rightarrow> Return (Inl err, w3)
           | (Inr (resp, rtt0), w3) \<Rightarrow>
               (case TLS resp of
                  None \<Rightarrow> Return (Inl ErrTLSHandshakeFailed, w3)
                | Some tls \<Rightarrow>
                    if \<not> HandshakeComplete tls then Return (Inl ErrTLSHandshakeFailed, w3)
                    else
                      (case matchCerts env (PeerCertificates tls) (Hashes stamp)
                              (replicate 32 0) of
                         (found, wantedHash) \<Rightarrow>
                           if \<not> found \<and> length (Hashes stamp) > 0
                           then Return (Inl (ErrCertificateHashNotFound wantedHash name), w3)
                           else
                             (case ReadAllLimited (MaxHTTPBodyLength env) (Body resp) of
                                Inl err \<Rightarrow> Return (Inl err, w3)
                              | Inr respBody \<Rightarrow>
                                  (case unexpectedResponse env respBody of
                                     Abort a \<Rightarrow> Abort a
                                   | Return True \<Rightarrow> Return (Inl ErrUnexpectedResponse, w3)
                                   | Return False \<Rightarrow>
                                       Return (Inr (emptyServerInfo
                                         \<lparr>siProto := StampProtoTypeDoH,
                                          siName := name,
                                          siTimeout := Timeout proxy,
                                          siURL := Some url,
                                          HostName := ProviderName stamp,
                                          initialRtt := goQuot rtt0 1000000,
                                          useGet := useGet0\<rparr>), w3)))))))"

definition fetchServerInfo ::
  "'w Env \<Rightarrow> Proxy \<Rightarrow> string \<Rightarrow> ServerStamp \<Rightarrow> bool \<Rightarrow> 'w \<Rightarrow>
   ((error + ServerInfo) \<times> 'w) outcome" where
  "fetchServerInfo env proxy name stamp isNew w =
     (if Proto stamp = StampProtoTypeDNSCrypt
      then fetchDNSCryptServerInfo env proxy name stamp isNew w
      else if Proto stamp = StampProtoTypeDoH
      then fetchDoHServerInfo env proxy name stamp isNew w
      else Return (Inl ErrUnsupportedProtocol, w))"

section \<open>Refreshing the live pool\<close>

definition refreshServer ::
  "'w Env \<Rightarrow> Proxy \<Rightarrow> string \<Rightarrow> ServerStamp \<Rightarrow> ServersInfo \<Rightarrow> 'w \<Rightarrow>
   (error option \<times> ServersInfo \<times> 'w) outcome" where
  "refreshServer env proxy name stamp serversInfo w =
     (let isNew = (findName siName name (inner serversInfo) = None) in
      case fetchServerInfo env proxy name stamp isNew w of
        Abort a \<Rightarrow> Abort a
      | Return (Inl err, w') \<Rightarrow> Return (Some err, serversInfo, w')
      | Return (Inr fetched, w') \<Rightarrow>
          if name \<noteq> siName fetched then Abort FatalExit
          else
            (let newServer = fetched\<lparr>rtt := Some (ewmaSet (real_of_int (initialRtt fetched))
                                                 (NewMovingAverage RTTEwmaDecay))\<rparr> in
             case findName siName name (inner serversInfo) of
               Some i \<Rightarrow>
                 Return (None, serversInfo\<lparr>inner := (inner serversInfo)[i := newServer]\<rparr>, w')
             | None \<Rightarrow>
                 Return (None,
                   serversInfo\<lparr>inner := inner serversInfo @ [newServer],
                               registeredServers := registeredServers serversInfo @
                                 [\<lparr>Name = name, Stamp = stamp, Description = []\<rparr>]\<rparr>, w')))"

text \<open>
  The loop of lines 135 to 139 over the snapshot of the registry, with the two variables
  \<open>liveServers\<close> and \<open>err\<close> it assigns.
\<close>

fun refreshLoop ::
  "'w Env \<Rightarrow> Proxy \<Rightarrow> RegisteredServer list \<Rightarrow> ServersInfo \<Rightarrow> 'w \<Rightarrow> int \<Rightarrow> error option \<Rightarrow>
   ((int \<times> error option) \<times> ServersInfo \<times> 'w) outcome" where
  "refreshLoop env proxy [] serversInfo w liveServers err =
     Return ((liveServers, err), serversInfo, w)"
| "refreshLoop env proxy (registeredServer # rest) serversInfo w liveServers err =
     (case refreshServer env proxy (Name registeredServer) (Stamp registeredServer)
             serversInfo w of
        Abort a \<Rightarrow> Abort a
      | Return (err', serversInfo', w') \<Rightarrow>
          refreshLoop env proxy rest serversInfo' w'
            (if err' = None then liveServers + 1 else liveServers) err')"

definition refresh ::
  "'w Env \<Rightarrow> Proxy \<Rightarrow> ServersInfo \<Rightarrow> 'w \<Rightarrow>
   ((int \<times> error option) \<times> ServersInfo \<times> 'w) outcome" where
  "refresh env proxy serversInfo w =
     (case refreshLoop env proxy (registeredServers serversInfo) serversInfo w 0 None of
        Abort a \<Rightarrow> Abort a
      | Return (res, serversInfo', w') \<Rightarrow>
          Return (res,
            serversInfo'\<lparr>inner :=
              SliceStable (\<lambda>a b. initialRtt a < initialRtt b) (inner serversInfo')\<rparr>, w'))"

section \<open>The estimator\<close>

text \<open>
  Lines 165 to 181 of \<open>estimatorUpdate\<close>, for a candidate other than 0: the new pool
  and \<open>partialSort\<close>. Reading the value of an average that is \<open>nil\<close> panics.
\<close>

definition estimatorAdjust ::
  "'w Env \<Rightarrow> nat \<Rightarrow> ServerInfo list \<Rightarrow> 'w \<Rightarrow> (ServerInfo list \<times> bool) outcome" where
  "estimatorAdjust env candidate pool w =
     (case (rtt (pool ! candidate), rtt (pool ! 0)) of
        (Some cE, Some bE) \<Rightarrow>
          (let candidateRtt = ewmaValue cE;
               seed = (ewmaValue bE < 0);
               currentBestRtt = (if seed then candidateRtt else ewmaValue bE);
               pool1 = (if seed
                        then pool[0 := (pool ! 0)\<lparr>rtt := Some (ewmaSet currentBestRtt bE)\<rparr>]
                        else pool)
           in if candidateRtt < currentBestRtt
              then Return (pool1[candidate := pool1 ! 0, 0 := pool1 ! candidate], True)
              else if candidateRtt > 0 \<and> candidateRtt \<ge> currentBestRtt * 4
              then
                (if timeNow env w - lastActionTS (pool1 ! candidate) > 1 * Minute
                 then Return
                   (pool1[candidate := (pool1 ! candidate)
                      \<lparr>rtt := Some (ewmaAdd
                         (MinF (MaxF (candidateRtt / 2) (currentBestRtt * 2)) candidateRtt)
                         cE)\<rparr>], True)
                 else Return (pool1, False))
              else Return (pool1, False))
      | _ \<Rightarrow> Abort Panic)"

text \<open>Lines 183 to 188: one pass of adjacent swaps, from index \<open>i\<close> on.\<close>

function bubblePass :: "nat \<Rightarrow> ServerInfo list \<Rightarrow> ServerInfo list outcome" where
  "bubblePass i pool =
     (if i < length pool then
        (case (rtt (pool ! (i - 1)), rtt (pool ! i)) of
           (Some a, Some b) \<Rightarrow>
             bubblePass (i + 1)
               (if ewmaValue a > ewmaValue b
                then pool[i - 1 := pool ! i, i := pool ! (i - 1)] else pool)
         | _ \<Rightarrow> Abort Panic)
      else Return pool)"
  by pat_completeness auto
termination
  by (relation "measure (\<lambda>(i, pool). length pool - i)") auto

declare bubblePass.simps [simp del]

definition estimatorUpdate ::
  "'w Env \<Rightarrow> ServersInfo \<Rightarrow> 'w \<Rightarrow> (ServersInfo \<times> 'w) outcome" where
  "estimatorUpdate env serversInfo w =
     (if length (inner serversInfo) = 0 then Abort Panic
      else
        (case Intn env w (length (inner serversInfo)) of
           (candidate, w') \<Rightarrow>
             if candidate = 0 then Return (serversInfo, w')
             else
               (case estimatorAdjust env candidate (inner serversInfo) w' of
                  Abort a \<Rightarrow> Abort a
                | Return (pool1, partialSort) \<Rightarrow>
                    if partialSort then
                      (case bubblePass 1 pool1 of
                         Abort a \<Rightarrow> Abort a
                       | Return pool2 \<Rightarrow> Return (serversInfo\<lparr>inner := pool2\<rparr>, w'))
                    else Return (serversInfo\<lparr>inner := pool1\<rparr>, w'))))"


section \<open>The policy pipeline of plugins.go\<close>

datatype PluginsAction =
    PluginsActionNone
  | PluginsActionForward
  | PluginsActionDrop
  | PluginsActionReject
  | PluginsActionSynth

datatype PluginsReturnCode =
    PluginsReturnCodePass
  | PluginsReturnCodeForward
  | PluginsReturnCodeDrop
  | PluginsReturnCodeReject
  | PluginsReturnCodeSynth
  | PluginsReturnCodeParseError
  | PluginsReturnCodeNXDomain
  | PluginsReturnCodeResponseError
  | PluginsReturnCodeServerError
  | PluginsReturnCodeCloak
  | PluginsReturnCodeServerTimeout

text \<open>
  \<open>dns.Msg\<close> of the DNS library, as its header and four sections; the pipeline itself
  only reads the question section.
\<close>

record dnsQuestion =
  qName :: string
  Qtype :: nat
  Qclass :: nat

record Msg =
  MsgHdr :: nat
  Question :: "dnsQuestion list"
  Answer :: "string list"
  Ns :: "string list"
  Extra :: "string list"

record PluginsState =
  sessionData :: "string \<rightharpoonup> nat"
  action :: PluginsAction
  maxUnencryptedUDPSafePayloadSize :: int
  originalMaxPayloadSize :: int
  maxPayloadSize :: int
  clientProto :: string
  clientAddr :: "string option"
  synthResponse :: "Msg option"
  dnssec :: bool
  cacheSize :: int
  cacheNegMinTTL :: "32 word"
  cacheNegMaxTTL :: "32 word"
  cacheMinTTL :: "32 word"
  cacheMaxTTL :: "32 word"
  rejectTTL :: "32 word"
  questionMsg :: "Msg option"
  requestStart :: instant
  requestEnd :: instant
  cacheHit :: bool
  returnCode :: PluginsReturnCode
  serverName :: string

text \<open>
  A policy module is known by its \<open>Eval\<close> alone, which receives the request's state and
  the message by pointer, and may change both, as well as the world outside (its cache,
  its log file). It returns its error, and the state and the message as it leaves them;
  \<open>questionMsg\<close> of the state stands for the message it points to.
\<close>

record 'w Plugin =
  pluginName :: string
  Eval :: "'w \<Rightarrow> PluginsState \<Rightarrow> Msg \<Rightarrow> (error option \<times> PluginsState \<times> Msg) \<times> 'w"

record 'w PluginsGlobals =
  queryPlugins :: "'w Plugin list"
  responsePlugins :: "'w Plugin list"
  loggingPlugins :: "'w Plugin list"
  refusedCodeInResponses :: bool
  respondWithIPv4 :: "IP option"
  respondWithIPv6 :: "IP option"

text \<open>
  The DNS codec and the helpers of the package's other files that the stages call.
\<close>

record Codec =
  Unpack :: "byte list \<Rightarrow> error + Msg"
  PackBuffer :: "Msg \<Rightarrow> byte list \<Rightarrow> error + byte list"
  RefusedResponseFromMessage ::
    "Msg \<Rightarrow> bool \<Rightarrow> IP option \<Rightarrow> IP option \<Rightarrow> 32 word \<Rightarrow> error + Msg"
  setMaxTTL :: "Msg \<Rightarrow> 32 word \<Rightarrow> Msg"
  Rcode :: "byte list \<Rightarrow> nat"
  HasTCFlag :: "byte list \<Rightarrow> bool"

definition RcodeSuccess :: nat where
  "RcodeSuccess = 0"

definition RcodeServerFailure :: nat where
  "RcodeServerFailure = 2"

definition RcodeNameError :: nat where
  "RcodeNameError = 3"

text \<open>
  Lines 253 to 259, shared by the two stages up to the log line of the response stage:
  on \<open>Reject\<close> the refused response is synthesised and stored.
\<close>

definition synthOnReject ::
  "Codec \<Rightarrow> 'w PluginsGlobals \<Rightarrow> PluginsState \<Rightarrow> Msg \<Rightarrow> error + Msg option" where
  "synthOnReject codec pluginsGlobals pluginsState msg =
     (if action pluginsState = PluginsActionReject then
        (case RefusedResponseFromMessage codec msg (refusedCodeInResponses pluginsGlobals)
                (respondWithIPv4 pluginsGlobals) (respondWithIPv6 pluginsGlobals)
                (rejectTTL pluginsState) of
           Inl err \<Rightarrow> Inl err
         | Inr synth \<Rightarrow> Inr (Some synth))
      else Inr None)"

text \<open>
  The loop of lines 248 to 263. Its result is \<open>Some\<close> of the values of a \<open>return\<close>
  inside the loop, or \<open>None\<close> when the loop is left by its end or by \<open>break\<close>.
\<close>

fun queryLoop ::
  "Codec \<Rightarrow> 'w PluginsGlobals \<Rightarrow> byte list \<Rightarrow> 'w Plugin list \<Rightarrow> PluginsState \<Rightarrow> Msg \<Rightarrow> 'w \<Rightarrow>
   (byte list option \<times> error option) option \<times> PluginsState \<times> Msg \<times> 'w" where
  "queryLoop codec pluginsGlobals packet [] pluginsState msg w = (None, pluginsState, msg, w)"
| "queryLoop codec pluginsGlobals packet (plugin # rest) pluginsState msg w =
     (case Eval plugin w pluginsState msg of
        ((Some err, st1, msg1), w1) \<Rightarrow>
          (Some (Some packet, Some err), st1\<lparr>action := PluginsActionDrop\<rparr>, msg1, w1)
      | ((None, st1, msg1), w1) \<Rightarrow>
          (case synthOnReject codec pluginsGlobals st1 msg1 of
             Inl err \<Rightarrow> (Some (None, Some err), st1, msg1, w1)
           | Inr synth \<Rightarrow>
               (let st2 = (case synth of None \<Rightarrow> st1
                           | Some s \<Rightarrow> st1\<lparr>synthResponse := Some s\<rparr>)
                in if action st2 \<noteq> PluginsActionForward then (None, st2, msg1, w1)
                   else queryLoop codec pluginsGlobals packet rest st2 msg1 w1)))"

definition ApplyQueryPlugins ::
  "Codec \<Rightarrow> 'w PluginsGlobals \<Rightarrow> PluginsState \<Rightarrow> byte list \<Rightarrow> string \<Rightarrow> 'w \<Rightarrow>
   (byte list option \<times> error option) \<times> PluginsState \<times> 'w" where
  "ApplyQueryPlugins codec pluginsGlobals pluginsState packet name w =
     (if length (queryPlugins pluginsGlobals) = 0 \<and> length (loggingPlugins pluginsGlobals) = 0
      then ((Some packet, None), pluginsState, w)
      else
        (let st1 = pluginsState\<lparr>serverName := name, action := PluginsActionForward\<rparr> in
         case Unpack codec packet of
           Inl err \<Rightarrow> ((Some packet, Some err), st1, w)
         | Inr msg \<Rightarrow>
             if length (Question msg) > 1
             then ((Some packet, Some ErrUnexpectedNumberOfQuestions), st1, w)
             else
               (case queryLoop codec pluginsGlobals packet (queryPlugins pluginsGlobals)
                       (st1\<lparr>questionMsg := Some msg\<rparr>) msg w of
                  (Some res, st2, msg2, w2) \<Rightarrow> (res, st2, w2)
                | (None, st2, msg2, w2) \<Rightarrow>
                    (case PackBuffer codec msg2 packet of
                       Inl err \<Rightarrow> ((Some packet, Some err), st2, w2)
                     | Inr packet2 \<Rightarrow> ((Some packet2, None), st2, w2)))))"

text \<open>
  The loop of lines 295 to 311. Line 305 reads \<open>synth.Question[0]\<close> for its log line,
  which panics on a synthesised response without a question.
\<close>

fun responseLoop ::
  "Codec \<Rightarrow> 'w PluginsGlobals \<Rightarrow> byte list \<Rightarrow> 'w Plugin list \<Rightarrow> PluginsState \<Rightarrow> Msg \<Rightarrow> 'w \<Rightarrow>
   ((byte list option \<times> error option) option \<times> PluginsState \<times> Msg \<times> 'w) outcome" where
  "responseLoop codec pluginsGlobals packet [] pluginsState msg w =
     Return (None, pluginsState, msg, w)"
| "responseLoop codec pluginsGlobals packet (plugin # rest) pluginsState msg w =
     (case Eval plugin w pluginsState msg of
        ((Some err, st1, msg1), w1) \<Rightarrow>
          Return (Some (Some packet, Some err), st1\<lparr>action := PluginsActionDrop\<rparr>, msg1, w1)
      | ((None, st1, msg1), w1) \<Rightarrow>
          (case synthOnReject codec pluginsGlobals st1 msg1 of
             Inl err \<Rightarrow> Return (Some (None, Some err), st1, msg1, w1)
           | Inr (Some s) \<Rightarrow>
               if Question s = [] then Abort Panic
               else
                 (let st2 = st1\<lparr>synthResponse := Some s\<rparr>
                  in if action st2 \<noteq> PluginsActionForward then Return (None, st2, msg1, w1)
                     else responseLoop codec pluginsGlobals packet rest st2 msg1 w1)
           | Inr None \<Rightarrow>
               if action st1 \<noteq> PluginsActionForward then Return (None, st1, msg1, w1)
               else responseLoop codec pluginsGlobals packet rest st1 msg1 w1))"

text \<open>The \<open>switch\<close> of lines 283 to 292.\<close>

definition returnCodeOfRcode :: "nat \<Rightarrow> PluginsReturnCode" where
  "returnCodeOfRcode rcode =
     (if rcode = RcodeSuccess then PluginsReturnCodePass
      else if rcode = RcodeNameError then PluginsReturnCodeNXDomain
      else if rcode = RcodeServerFailure then PluginsReturnCodeServerError
      else PluginsReturnCodeResponseError)"

definition ApplyResponsePlugins ::
  "'w Env \<Rightarrow> Codec \<Rightarrow> 'w PluginsGlobals \<Rightarrow> PluginsState \<Rightarrow> byte list \<Rightarrow> 32 word option \<Rightarrow> 'w \<Rightarrow>
   ((byte list option \<times> error option) \<times> PluginsState \<times> 'w) outcome" where
  "ApplyResponsePlugins env codec pluginsGlobals pluginsState packet ttl w =
     (if length (responsePlugins pluginsGlobals) = 0
         \<and> length (loggingPlugins pluginsGlobals) = 0
      then Return ((Some packet, None), pluginsState, w)
      else
        (let st1 = pluginsState\<lparr>action := PluginsActionForward\<rparr> in
         case Unpack codec packet of
           Inl err \<Rightarrow>
             Return ((Some packet,
                      if int (length packet) \<ge> MinDNSPacketSize env \<and> HasTCFlag codec packet
                      then None else Some err), st1, w)
         | Inr msg \<Rightarrow>
             (case responseLoop codec pluginsGlobals packet (responsePlugins pluginsGlobals)
                     (st1\<lparr>returnCode := returnCodeOfRcode (Rcode codec packet)\<rparr>) msg w of
                Abort a \<Rightarrow> Abort a
              | Return (Some res, st2, msg2, w2) \<Rightarrow> Return (res, st2, w2)
              | Return (None, st2, msg2, w2) \<Rightarrow>
                  (case PackBuffer codec
                          (case ttl of None \<Rightarrow> msg2 | Some t \<Rightarrow> setMaxTTL codec msg2 t)
                          packet of
                     Inl err \<Rightarrow> Return ((Some packet, Some err), st2, w2)
                   | Inr packet2 \<Rightarrow> Return ((Some packet2, None), st2, w2)))))"

text \<open>The loop of lines 333 to 337.\<close>

fun loggingLoop ::
  "'w Plugin list \<Rightarrow> PluginsState \<Rightarrow> Msg \<Rightarrow> 'w \<Rightarrow> error option \<times> PluginsState \<times> 'w" where
  "loggingLoop [] pluginsState msg w = (None, pluginsState, w)"
| "loggingLoop (plugin # rest) pluginsState msg w =
     (case Eval plugin w pluginsState msg of
        ((Some err, st1, msg1), w1) \<Rightarrow> (Some err, st1, w1)
      | ((None, st1, msg1), w1) \<Rightarrow> loggingLoop rest st1 msg1 w1)"

definition ApplyLoggingPlugins ::
  "'w Env \<Rightarrow> 'w PluginsGlobals \<Rightarrow> PluginsState \<Rightarrow> 'w \<Rightarrow> error option \<times> PluginsState \<times> 'w" where
  "ApplyLoggingPlugins env pluginsGlobals pluginsState w =
     (if length (loggingPlugins pluginsGlobals) = 0 then (None, pluginsState, w)
      else
        (let st1 = pluginsState\<lparr>requestEnd := timeNow env w\<rparr> in
         case questionMsg st1 of
           None \<Rightarrow> (Some ErrUnexpectedNumberOfQuestions, st1, w)
         | Some msg \<Rightarrow>
             if length (Question msg) > 1
             then (Some ErrUnexpectedNumberOfQuestions, st1, w)
             else loggingLoop (loggingPlugins pluginsGlobals) st1 msg w))"


section \<open>Observations\<close>

text \<open>
  The results of the calls of \<open>refreshServer\<close> that the loop of \<open>refresh\<close> makes, in
  the order of the registry: \<open>None\<close> for an attempt that succeeded, its error otherwise.
\<close>

fun attempts ::
  "'w Env \<Rightarrow> Proxy \<Rightarrow> RegisteredServer list \<Rightarrow> ServersInfo \<Rightarrow> 'w \<Rightarrow> error option list" where
  "attempts env proxy [] serversInfo w = []"
| "attempts env proxy (r # rest) serversInfo w =
     (case refreshServer env proxy (Name r) (Stamp r) serversInfo w of
        Abort a \<Rightarrow> []
      | Return (err, serversInfo', w') \<Rightarrow> err # attempts env proxy rest serversInfo' w')"

section \<open>Concrete instances\<close>

text \<open>What a call returned, if it did.\<close>

fun returned :: "'a outcome \<Rightarrow> 'a option" where
  "returned (Return x) = Some x"
| "returned (Abort a) = None"

text \<open>
  A small world for evaluating the definitions: the state of the world is the number of
  calls made to the outside. The host \<open>down.example\<close> does not answer, every other host
  answers the probe with a well-formed response of 17 bytes, \<open>slow.example\<close> after 90
  ms and the others after 25 ms; no relay name parses as a stamp, and only
  \<open>192.0.2.1:443\<close> and \<open>192.0.2.7:443\<close> resolve. The clock stands at 1000 s.
\<close>

definition exampleBody :: "byte list" where
  "exampleBody =
     [0xca, 0xfe, 0x81, 0x80, 0x00, 0x01, 0x00, 0x00, 0x00, 0x00, 0x00, 0x00, 0x00, 0x00,
      0x02, 0x00, 0x01]"

definition exampleResponse :: HTTPResponse where
  "exampleResponse =
     \<lparr>TLS = Some \<lparr>HandshakeComplete = True, NegotiatedProtocol = ''h2'',
                  PeerCertificates = [\<lparr>RawTBSCertificate = [1, 2, 3], Subject = ''CN=up''\<rparr>]\<rparr>,
      Body = \<lparr>bodyData = exampleBody, bodyErr = None\<rparr>\<rparr>"

definition exampleEnv :: "nat Env" where
  "exampleEnv =
     \<lparr>randIntn = (\<lambda>w n. (w, Suc w)),
      timeNow = (\<lambda>w. 1000 * Second),
      NewServerStampFromString = (\<lambda>s. Inl (ErrExternal ''invalid stamp'')),
      ResolveUDPAddr = (\<lambda>w s. (if s = ''192.0.2.1:443'' \<or> s = ''192.0.2.7:443'' then Inr s
                                  else Inl (ErrExternal ''no such host''), Suc w)),
      ResolveTCPAddr = (\<lambda>w s. (if s = ''192.0.2.1:443'' \<or> s = ''192.0.2.7:443'' then Inr s
                                  else Inl (ErrExternal ''no such host''), Suc w)),
      hexDecodeString = (\<lambda>bs. Inl (ErrExternal ''invalid byte'')),
      FetchCurrentDNSCryptCert = (\<lambda>w name proto pk addr provider isNew udp tcp.
         (Inl (ErrExternal ''no certificate''), Suc w)),
      ExtractHostAndPort = (\<lambda>s port. (s, port)),
      ParseIP = (\<lambda>s. None),
      saveCachedIP = (\<lambda>w host ip ttl. w),
      DoHQuery = (\<lambda>w get url body timeout.
         (if Host url = ''down.example'' then Inl (ErrExternal ''timeout'')
          else Inr (exampleResponse,
                    (if Host url = ''slow.example'' then 90 else 25) * 1000000), Suc w)),
      sha256Sum = (\<lambda>bs. replicate 32 (of_nat (length bs))),
      MinDNSPacketSize = 17,
      MaxDNSPacketSize = 4096,
      MaxHTTPBodyLength = 4000000\<rparr>"

definition exampleProxy :: Proxy where
  "exampleProxy =
     \<lparr>Routes = None, RegisteredRelays = [], RegisteredServers = [],
      Timeout = 2500 * 1000000, MainProto = ''udp'', ShowCerts = False\<rparr>"

definition dohStamp :: "string \<Rightarrow> ServerStamp" where
  "dohStamp host =
     \<lparr>ServerAddrStr = [], ServerPk = [], Hashes = [], ProviderName = host,
      Path = ''/dns-query'', Props = 0, Proto = StampProtoTypeDoH\<rparr>"

definition relayStamp :: "string \<Rightarrow> ServerStamp" where
  "relayStamp addr =
     \<lparr>ServerAddrStr = addr, ServerPk = [], Hashes = [], ProviderName = [],
      Path = [], Props = 0, Proto = StampProtoTypeDNSCryptRelay\<rparr>"


definition dnscryptStamp :: "string \<Rightarrow> ServerStamp" where
  "dnscryptStamp addr =
     \<lparr>ServerAddrStr = addr, ServerPk = replicate 32 7, Hashes = [],
      ProviderName = ''2.dnscrypt-cert.example'', Path = [], Props = 0,
      Proto = StampProtoTypeDNSCrypt\<rparr>"

definition registered :: "string \<Rightarrow> ServerStamp \<Rightarrow> RegisteredServer" where
  "registered name stamp = \<lparr>Name = name, Stamp = stamp, Description = []\<rparr>"

text \<open>The live entry a successful probe of a DoH host leaves in the pool.\<close>

definition probedServer :: "string \<Rightarrow> string \<Rightarrow> int \<Rightarrow> ServerInfo" where
  "probedServer name host ms =
     emptyServerInfo
       \<lparr>siProto := StampProtoTypeDoH, siName := name, siTimeout := 2500 * 1000000,
        siURL := Some \<lparr>Scheme = ''https'', Host = host, urlPath = ''/dns-query''\<rparr>,
        HostName := host, rtt := Some \<lparr>decay = 10, ewmaValue = real_of_int ms\<rparr>,
        initialRtt := ms\<rparr>"

text \<open>A registry with one server, registered and not yet probed.\<close>

definition registeredOnce :: ServersInfo where
  "registeredOnce = NewServersInfo\<lparr>registeredServers := [registered ''up'' (dohStamp ''up.example'')]\<rparr>"

text \<open>The same server, live, and twice in the registry.\<close>

definition registeredTwice :: ServersInfo where
  "registeredTwice =
     registeredOnce
       \<lparr>inner := [probedServer ''up'' ''up.example'' 25],
        registeredServers := [registered ''up'' (dohStamp ''up.example''),
                              registered ''up'' (dohStamp ''up.example'')]\<rparr>"

text \<open>A registry of a server that is down, followed by one that is up.\<close>

definition downThenUp :: ServersInfo where
  "downThenUp =
     NewServersInfo\<lparr>registeredServers :=
       [registered ''down'' (dohStamp ''down.example''), registered ''up'' (dohStamp ''up.example'')]\<rparr>"

text \<open>A registry of a server that is up, followed by one that is down.\<close>

definition upThenDown :: ServersInfo where
  "upThenDown =
     NewServersInfo\<lparr>registeredServers :=
       [registered ''up'' (dohStamp ''up.example''), registered ''down'' (dohStamp ''down.example'')]\<rparr>"

text \<open>A registry and a pool of a slow server followed by a fast one.\<close>

definition slowThenUp :: ServersInfo where
  "slowThenUp =
     NewServersInfo
       \<lparr>inner := [probedServer ''slow'' ''slow.example'' 40, probedServer ''up'' ''up.example'' 40],
        registeredServers :=
          [registered ''slow'' (dohStamp ''slow.example''), registered ''up'' (dohStamp ''up.example'')]\<rparr>"

text \<open>
  A pool for the estimator: the best server at 10 ms, a laggard at 200 ms whose last
  action was 120 s before the clock of \<open>exampleEnv\<close>.
\<close>

definition laggardPool :: "ServerInfo list" where
  "laggardPool =
     [(probedServer ''best'' ''up.example'' 10)\<lparr>lastActionTS := 999 * Second\<rparr>,
      (probedServer ''laggard'' ''slow.example'' 200)\<lparr>lastActionTS := 880 * Second\<rparr>]"

text \<open>
  A proxy whose route for \<open>srv\<close> names the relay \<open>anon\<close>, a name that both registries
  know: the relay registry at 192.0.2.7, the server registry at 192.0.2.1.
\<close>

definition proxyBoth :: Proxy where
  "proxyBoth =
     exampleProxy
       \<lparr>Routes := Some [''srv'' \<mapsto> [''anon'']],
        RegisteredRelays := [registered ''anon'' (relayStamp ''192.0.2.7:443'')],
        RegisteredServers := [registered ''anon'' (dnscryptStamp ''192.0.2.1:443'')]\<rparr>"

definition proxyRelayOnly :: Proxy where
  "proxyRelayOnly = proxyBoth\<lparr>RegisteredServers := []\<rparr>"


text \<open>
  The same world, except that every host answers the probe with the first 16 bytes of the
  response: one byte less than \<open>MinDNSPacketSize\<close>.
\<close>

definition shortEnv :: "nat Env" where
  "shortEnv =
     exampleEnv\<lparr>DoHQuery := (\<lambda>w get url body timeout.
        (Inr (exampleResponse\<lparr>Body := \<lparr>bodyData = butlast exampleBody, bodyErr = None\<rparr>\<rparr>,
              25 * 1000000), Suc w))\<rparr>"

text \<open>
  For the pipeline: a codec that parses every packet as one message, with or without a
  question, and packs a message as the packet it was given; modules that let the query
  pass, reject it, or fail. The world counts the calls of \<open>Eval\<close>.
\<close>

definition exampleMsg :: "dnsQuestion list \<Rightarrow> Msg" where
  "exampleMsg qs = \<lparr>MsgHdr = 0, Question = qs, Answer = [], Ns = [], Extra = []\<rparr>"

definition exampleQuestion :: dnsQuestion where
  "exampleQuestion = \<lparr>qName = ''example.com.'', Qtype = 1, Qclass = 1\<rparr>"

definition exampleCodec :: Codec where
  "exampleCodec =
     \<lparr>Unpack = (\<lambda>packet. Inr (exampleMsg [exampleQuestion])),
      PackBuffer = (\<lambda>msg packet. Inr packet),
      RefusedResponseFromMessage = (\<lambda>msg refused ipv4 ipv6 ttl. Inr (msg\<lparr>MsgHdr := 5\<rparr>)),
      setMaxTTL = (\<lambda>msg ttl. msg),
      Rcode = (\<lambda>packet. 0),
      HasTCFlag = (\<lambda>packet. False)\<rparr>"

definition passPlugin :: "nat Plugin" where
  "passPlugin =
     \<lparr>pluginName = ''pass'', Eval = (\<lambda>w st msg. ((None, st, msg), Suc w))\<rparr>"

definition rejectPlugin :: "nat Plugin" where
  "rejectPlugin =
     \<lparr>pluginName = ''reject'',
      Eval = (\<lambda>w st msg. ((None, st\<lparr>action := PluginsActionReject\<rparr>, msg), Suc w))\<rparr>"

definition failPlugin :: "nat Plugin" where
  "failPlugin =
     \<lparr>pluginName = ''fail'',
      Eval = (\<lambda>w st msg. ((Some (ErrExternal ''module failed''), st, msg), Suc w))\<rparr>"

definition exampleGlobals :: "nat PluginsGlobals" where
  "exampleGlobals =
     \<lparr>queryPlugins = [], responsePlugins = [], loggingPlugins = [],
      refusedCodeInResponses = True, respondWithIPv4 = None, respondWithIPv6 = None\<rparr>"

definition exampleState :: PluginsState where
  "exampleState =
     \<lparr>sessionData = Map.empty, action = PluginsActionForward,
      maxUnencryptedUDPSafePayloadSize = 1252, originalMaxPayloadSize = 0,
      maxPayloadSize = 4096, clientProto = ''udp'', clientAddr = None,
      synthResponse = None, dnssec = False, cacheSize = 0, cacheNegMinTTL = 0,
      cacheNegMaxTTL = 0, cacheMinTTL = 0, cacheMaxTTL = 0, rejectTTL = 600,
      questionMsg = None, requestStart = 0, requestEnd = 0, cacheHit = False,
      returnCode = PluginsReturnCodePass, serverName = []\<rparr>"

section \<open>Evaluating the instances\<close>

lemmas example_defs = exampleEnv_def exampleProxy_def dohStamp_def exampleResponse_def
  exampleBody_def NewServersInfo_def DefaultLBStrategy_def registered_def probedServer_def

lemmas fetchDoH_defs = fetchServerInfo_def fetchDoHServerInfo_def dohProbe_def
  cacheStampIP_def unexpectedResponse_def byteAt_def ReadAllLimited_def probeBody_def
  emptyServerInfo_def goQuot_def

lemma fetch_up:
  "fetchServerInfo exampleEnv exampleProxy name (dohStamp ''up.example'') isNew w =
     Return (Inr ((probedServer name ''up.example'' 25)\<lparr>rtt := None\<rparr>), w + 2)"
  by (simp add: example_defs fetchDoH_defs)

lemma fetch_slow:
  "fetchServerInfo exampleEnv exampleProxy name (dohStamp ''slow.example'') isNew w =
     Return (Inr ((probedServer name ''slow.example'' 90)\<lparr>rtt := None\<rparr>), w + 2)"
  by (simp add: example_defs fetchDoH_defs)

lemma fetch_down:
  "fetchServerInfo exampleEnv exampleProxy name (dohStamp ''down.example'') isNew w =
     Return (Inl (ErrExternal ''timeout''), w + 2)"
  by (simp add: example_defs fetchDoH_defs)

lemma refresh_up:
  "refreshServer exampleEnv exampleProxy name (dohStamp ''up.example'') serversInfo w =
     (case findName siName name (inner serversInfo) of
        Some i \<Rightarrow>
          Return (None, serversInfo\<lparr>inner :=
            (inner serversInfo)[i := probedServer name ''up.example'' 25]\<rparr>, w + 2)
      | None \<Rightarrow>
          Return (None, serversInfo\<lparr>inner :=
              inner serversInfo @ [probedServer name ''up.example'' 25],
            registeredServers := registeredServers serversInfo @
              [registered name (dohStamp ''up.example'')]\<rparr>, w + 2))"
  by (simp add: refreshServer_def fetch_up Let_def)
     (simp add: probedServer_def emptyServerInfo_def NewMovingAverage_def ewmaSet_def
        RTTEwmaDecay_def registered_def split: option.splits)

lemma refresh_slow:
  "refreshServer exampleEnv exampleProxy name (dohStamp ''slow.example'') serversInfo w =
     (case findName siName name (inner serversInfo) of
        Some i \<Rightarrow>
          Return (None, serversInfo\<lparr>inner :=
            (inner serversInfo)[i := probedServer name ''slow.example'' 90]\<rparr>, w + 2)
      | None \<Rightarrow>
          Return (None, serversInfo\<lparr>inner :=
              inner serversInfo @ [probedServer name ''slow.example'' 90],
            registeredServers := registeredServers serversInfo @
              [registered name (dohStamp ''slow.example'')]\<rparr>, w + 2))"
  by (simp add: refreshServer_def fetch_slow Let_def)
     (simp add: probedServer_def emptyServerInfo_def NewMovingAverage_def ewmaSet_def
        RTTEwmaDecay_def registered_def split: option.splits)

lemma refresh_down:
  "refreshServer exampleEnv exampleProxy name (dohStamp ''down.example'') serversInfo w =
     Return (Some (ErrExternal ''timeout''), serversInfo, w + 2)"
  by (simp add: refreshServer_def fetch_down)

lemmas refresh_eval = refresh_def registered_def refresh_down refresh_up refresh_slow
  NewServersInfo_def SliceStable_def

section \<open>The registry and the refresh\<close>

lemma insertStable_insort_key:
  "insertStable (\<lambda>a b. f a < f b) x ys = insort_key f x ys" for f :: "'a \<Rightarrow> 'b::linorder"
  by (induction ys) auto

lemma SliceStable_sort_key:
  "SliceStable (\<lambda>a b. f a < f b) xs = sort_key f xs" for f :: "'a \<Rightarrow> 'b::linorder"
  by (induction xs) (simp_all add: SliceStable_def insertStable_insort_key)

lemma refreshLoop_attempts:
  "refreshLoop env proxy rs serversInfo w n0 e0 = Return ((live, err), after, w') \<Longrightarrow>
     live = n0 + int (length (filter (\<lambda>e. e = None) (attempts env proxy rs serversInfo w))) \<and>
     err = (if attempts env proxy rs serversInfo w = [] then e0
            else last (attempts env proxy rs serversInfo w)) \<and>
     length (attempts env proxy rs serversInfo w) = length rs"
proof (induction rs arbitrary: serversInfo w n0 e0)
  case Nil
  then show ?case by simp
next
  case (Cons r rs)
  then show ?case
    by (fastforce split: outcome.splits prod.splits if_splits)
qed

lemma findName_Some: "findName nm name xs = Some i \<Longrightarrow> i < length xs \<and> nm (xs ! i) = name"
  by (induction xs arbitrary: i) (auto split: if_splits)

lemma findName_None: "findName nm name xs = None \<Longrightarrow> name \<notin> nm ` set xs"
  by (induction xs) (auto split: if_splits)

lemma registerServer_keeps_names_distinct:
  assumes "distinct (map Name (registeredServers serversInfo))"
  shows "distinct (map Name (registeredServers (snd (registerServer name stamp serversInfo))))"
proof (cases "findName Name name (registeredServers serversInfo)")
  case None
  with assms findName_None [OF None] show ?thesis
    by (simp add: registerServer_def)
next
  case (Some i)
  from findName_Some [OF Some]
  have "map Name ((registeredServers serversInfo)[i := \<lparr>Name = name, Stamp = stamp, Description = []\<rparr>])
          = map Name (registeredServers serversInfo)"
    by (simp add: map_update list_update_same_conv)
  with assms Some show ?thesis
    by (simp add: registerServer_def)
qed

text \<open>
  C1. The claim: the registry holds at most one entry per name after any sequence of
  \<open>registerServer\<close> and \<open>refreshServer\<close>, the latter appending its entry only when the
  registry lacked the name. The code: \<open>registerServer\<close> replaces the entry of the name
  in place and keeps the names distinct (\<open>registerServer_keeps_names_distinct\<close>), but
  \<open>refreshServer\<close> appends its entry whenever the name is new to the live pool, without
  looking at the registry. A server registered once and then refreshed for the first time
  is in the registry twice, and the next \<open>refresh\<close> probes it twice and counts two live
  servers for the one in the pool.
\<close>

theorem refreshServer_duplicates_registry_entry:
  "registerServer ''up'' (dohStamp ''up.example'') NewServersInfo = (None, registeredOnce) \<and>
   refreshServer exampleEnv exampleProxy ''up'' (dohStamp ''up.example'') registeredOnce 0
     = Return (None, registeredTwice, 2) \<and>
   map Name (registeredServers registeredTwice) = [''up'', ''up''] \<and>
   refresh exampleEnv exampleProxy registeredTwice 2 = Return ((2, None), registeredTwice, 6)"
  apply (intro conjI)
     apply (simp add: registerServer_def registeredOnce_def NewServersInfo_def registered_def)
    apply (simp add: refresh_up registeredOnce_def registeredTwice_def NewServersInfo_def)
   apply (simp add: registeredTwice_def registered_def)
  apply (simp add: refresh_def refresh_up registeredOnce_def registeredTwice_def
      NewServersInfo_def SliceStable_def registered_def probedServer_def emptyServerInfo_def)
  done

text \<open>
  C2. The claim: when an attempt fails, \<open>refresh\<close> returns a non-nil error, the error
  of the last failing attempt. It fails on a registry whose first server is down and
  whose second is up: the first attempt returns an error, \<open>refresh\<close> returns no error.
\<close>

theorem refresh_error_not_sticky:
  "refreshServer exampleEnv exampleProxy ''down'' (dohStamp ''down.example'') downThenUp 0
     = Return (Some (ErrExternal ''timeout''), downThenUp, 2) \<and>
   refresh exampleEnv exampleProxy downThenUp 0
     = Return ((1, None),
         downThenUp\<lparr>inner := [probedServer ''up'' ''up.example'' 25],
           registeredServers := registeredServers downThenUp @
             [registered ''up'' (dohStamp ''up.example'')]\<rparr>, 4)"
  by (simp add: refresh_down) (simp add: refresh_eval downThenUp_def)

text \<open>
  C2, as amended: \<open>refresh\<close> returns the number of attempts that succeeded, and the
  result of the last attempt in the order of the registry: its error if it failed, and no
  error if it succeeded (or if the registry is empty), whatever the earlier attempts did.
\<close>

theorem refresh_returns_result_of_last_attempt:
  assumes "refresh env proxy serversInfo w = Return ((live, err), after, w')"
  shows "live = int (length (filter (\<lambda>e. e = None)
                   (attempts env proxy (registeredServers serversInfo) serversInfo w))) \<and>
         err = (if registeredServers serversInfo = [] then None
                else last (attempts env proxy (registeredServers serversInfo) serversInfo w))"
proof -
  from assms obtain before where
    "refreshLoop env proxy (registeredServers serversInfo) serversInfo w 0 None
       = Return ((live, err), before, w')"
    by (auto simp: refresh_def split: outcome.splits prod.splits)
  from refreshLoop_attempts [OF this] show ?thesis by auto
qed

theorem refresh_returns_result_of_last_attempt_witness:
  "refresh exampleEnv exampleProxy upThenDown 0
     = Return ((1, Some (ErrExternal ''timeout'')),
         upThenDown\<lparr>inner := [probedServer ''up'' ''up.example'' 25],
           registeredServers := registeredServers upThenDown @
             [registered ''up'' (dohStamp ''up.example'')]\<rparr>, 4) \<and>
   attempts exampleEnv exampleProxy (registeredServers upThenDown) upThenDown 0
     = [None, Some (ErrExternal ''timeout'')] \<and>
   (1::int) = int (length (filter (\<lambda>e. e = None)
                (attempts exampleEnv exampleProxy (registeredServers upThenDown) upThenDown 0)))"
  using refresh_returns_result_of_last_attempt [of exampleEnv exampleProxy upThenDown 0 1
     "Some (ErrExternal ''timeout'')"
     "upThenDown\<lparr>inner := [probedServer ''up'' ''up.example'' 25],
           registeredServers := registeredServers upThenDown @
             [registered ''up'' (dohStamp ''up.example'')]\<rparr>" 4]
  by (simp add: refresh_eval upThenDown_def)

text \<open>
  C5. After every call of \<open>refresh\<close> that returns, whatever the attempts did, the live
  pool is sorted by ascending \<open>initialRtt\<close>, and the servers of equal \<open>initialRtt\<close> are
  in the order they had in the pool the loop left.
\<close>

theorem refresh_sorts_pool_stably:
  assumes "refresh env proxy serversInfo w = Return (res, after, w')"
  shows "sorted (map initialRtt (inner after)) \<and>
         (\<exists>before. refreshLoop env proxy (registeredServers serversInfo) serversInfo w 0 None
                     = Return (res, before, w') \<and>
            (\<forall>k. filter (\<lambda>s. initialRtt s = k) (inner after)
                 = filter (\<lambda>s. initialRtt s = k) (inner before)))"
  using assms
  by (auto simp: refresh_def SliceStable_sort_key sort_key_stable
           split: outcome.splits prod.splits)

theorem refresh_sorts_pool_stably_witness:
  "refresh exampleEnv exampleProxy slowThenUp 0 =
     Return ((2, None),
       slowThenUp\<lparr>inner := [probedServer ''up'' ''up.example'' 25,
                             probedServer ''slow'' ''slow.example'' 90]\<rparr>, 4) \<and>
   sorted (map initialRtt [probedServer ''up'' ''up.example'' 25,
                           probedServer ''slow'' ''slow.example'' 90])"
  using refresh_sorts_pool_stably [of exampleEnv exampleProxy slowThenUp 0 "(2, None)"
     "slowThenUp\<lparr>inner := [probedServer ''up'' ''up.example'' 25,
                            probedServer ''slow'' ''slow.example'' 90]\<rparr>" 4]
  by (simp add: refresh_eval slowThenUp_def probedServer_def emptyServerInfo_def)

text \<open>
  C8. When \<open>fetchServerInfo\<close> returns an error, \<open>refreshServer\<close> returns that error and
  the live pool and the registry are what they were; an entry of that name that was live
  before is still there, unchanged.
\<close>

theorem refreshServer_failure_keeps_state:
  assumes "fetchServerInfo env proxy name stamp
             (findName siName name (inner serversInfo) = None) w = Return (Inl err, w')"
  shows "refreshServer env proxy name stamp serversInfo w = Return (Some err, serversInfo, w')"
  using assms by (simp add: refreshServer_def)

theorem refreshServer_failure_keeps_state_witness:
  "fetchServerInfo exampleEnv exampleProxy ''up'' (dohStamp ''down.example'')
     (findName siName ''up'' (inner slowThenUp) = None) 0
     = Return (Inl (ErrExternal ''timeout''), 2) \<and>
   refreshServer exampleEnv exampleProxy ''up'' (dohStamp ''down.example'') slowThenUp 0
     = Return (Some (ErrExternal ''timeout''), slowThenUp, 2)"
  using refreshServer_failure_keeps_state [of exampleEnv exampleProxy "''up''"
     "dohStamp ''down.example''" slowThenUp 0 "ErrExternal ''timeout''" 2]
  by (simp add: fetch_down)


section \<open>The estimator's second chance\<close>

lemma MinF_min: "MinF a b = min a b"
  by (simp add: MinF_def min_def)

lemma MaxF_max: "MaxF a b = max a b"
  by (simp add: MaxF_def max_def)

lemma second_chance_branch:
  assumes "candidate \<noteq> 0" and "candidate < length pool"
    and "rtt (pool ! candidate) = Some cE" and "rtt (pool ! 0) = Some bE"
    and "0 \<le> ewmaValue bE"
    and "ewmaValue cE > 0" and "ewmaValue cE \<ge> 4 * ewmaValue bE"
    and "timeNow env w - lastActionTS (pool ! candidate) > 60 * Second"
  shows "estimatorAdjust env candidate pool w =
           Return (pool[candidate := (pool ! candidate)
                     \<lparr>rtt := Some (ewmaAdd (min (max (ewmaValue cE / 2) (2 * ewmaValue bE))
                                              (ewmaValue cE)) cE)\<rparr>], True)"
  using assms
  by (simp add: estimatorAdjust_def Let_def Minute_def MinF_min MaxF_max mult.commute)

lemma second_chance_bounds:
  assumes "candidate \<noteq> 0" and "candidate < length pool"
    and "rtt (pool ! candidate) = Some cE" and "rtt (pool ! 0) = Some bE"
    and "1 \<le> decay cE"
    and "ewmaValue cE > 0" and "ewmaValue cE \<ge> 4 * ewmaValue bE"
    and "timeNow env w - lastActionTS (pool ! candidate) > 60 * Second"
  shows "\<exists>pool' partialSort cE'.
           estimatorAdjust env candidate pool w = Return (pool', partialSort) \<and>
           length pool' = length pool \<and>
           rtt (pool' ! candidate) = Some cE' \<and>
           2 * ewmaValue bE \<le> ewmaValue cE' \<and> ewmaValue cE' \<le> ewmaValue cE"
proof (cases "0 \<le> ewmaValue bE")
  case True
  let ?c = "ewmaValue cE" and ?b = "ewmaValue bE" and ?N = "decay cE"
  have tgt: "min (max (?c / 2) (2 * ?b)) ?c = ?c / 2"
    using assms(6,7) by (simp add: min_def max_def)
  have N: "0 < ?N" using assms(5) by simp
  have val: "ewmaValue (ewmaAdd (?c / 2) cE) = (?c * (?N - 1) + ?c / 2) / ?N"
    by (simp add: ewmaAdd_def)
  have up: "(?c * (?N - 1) + ?c / 2) / ?N \<le> ?c"
  proof -
    have "?c * (?N - 1) + ?c / 2 \<le> ?c * ?N" using assms(6) by (simp add: algebra_simps)
    then show ?thesis using N by (simp add: pos_divide_le_eq)
  qed
  have lo: "2 * ?b \<le> (?c * (?N - 1) + ?c / 2) / ?N"
  proof -
    have "?c / 2 * ?N \<le> ?c * (?N - 1) + ?c / 2"
    proof -
      have "?c * (?N - 1) + ?c / 2 - ?c / 2 * ?N = ?c / 2 * (?N - 1)" by (simp add: algebra_simps)
      moreover have "0 \<le> ?c / 2 * (?N - 1)" using assms(5,6) by simp
      ultimately show ?thesis by linarith
    qed
    then have "?c / 2 \<le> (?c * (?N - 1) + ?c / 2) / ?N" using N by (simp add: pos_le_divide_eq)
    moreover have "2 * ?b \<le> ?c / 2" using assms(7) by simp
    ultimately show ?thesis by linarith
  qed
  from second_chance_branch [OF assms(1-4) True assms(6-8)] tgt val up lo assms(2)
  show ?thesis by auto
next
  case False
  then have neg: "ewmaValue bE < 0" by simp
  have "estimatorAdjust env candidate pool w =
          Return (pool[0 := (pool ! 0)\<lparr>rtt := Some (ewmaSet (ewmaValue cE) bE)\<rparr>], False)"
    using assms(3,4,6) neg by (simp add: estimatorAdjust_def Let_def)
  moreover have "rtt (pool[0 := (pool ! 0)\<lparr>rtt := Some (ewmaSet (ewmaValue cE) bE)\<rparr>] ! candidate) = Some cE"
    using assms(1,3) by simp
  ultimately show ?thesis using neg assms(6) by auto
qed

lemma Intn_less: "0 < n \<Longrightarrow> Intn env w n = (c, w1) \<Longrightarrow> c < n"
  by (auto simp: Intn_def split: prod.splits)

lemma bubblePass_set: "bubblePass i pool = Return pool' \<Longrightarrow> set pool' = set pool"
proof (induction i pool rule: bubblePass.induct)
  case (1 i pool)
  show ?case
  proof (cases "i < length pool")
    case False
    with "1.prems" show ?thesis by (simp add: bubblePass.simps [of i pool])
  next
    case True
    from True "1.prems" obtain a b where ab: "rtt (pool ! (i - 1)) = Some a" "rtt (pool ! i) = Some b"
      by (auto simp: bubblePass.simps [of i pool] split: option.splits)
    let ?next = "if ewmaValue a > ewmaValue b
                 then pool[i - 1 := pool ! i, i := pool ! (i - 1)] else pool"
    from True ab "1.prems" have run: "bubblePass (i + 1) ?next = Return pool'"
      by (simp add: bubblePass.simps [of i pool])
    from "1.IH" [OF True _ ab(1) ab(2) run] ab have "set pool' = set ?next" by simp
    moreover have "set ?next = set pool" using True by (simp add: set_swap)
    ultimately show ?thesis by simp
  qed
qed

lemma estimatorUpdate_set:
  assumes "Intn env w (length (inner serversInfo)) = (candidate, w1)" and "candidate \<noteq> 0"
    and "inner serversInfo \<noteq> []"
    and "estimatorAdjust env candidate (inner serversInfo) w1 = Return (pool', partialSort)"
    and "estimatorUpdate env serversInfo w = Return (after, w')"
  shows "set (inner after) = set pool'"
  using assms
  by (auto simp: estimatorUpdate_def dest: bubblePass_set split: outcome.splits if_splits)

lemma adjust_laggard:
  "estimatorAdjust exampleEnv 1 laggardPool 2 =
     Return ([(probedServer ''best'' ''up.example'' 10)\<lparr>lastActionTS := 999 * Second\<rparr>,
              (probedServer ''laggard'' ''slow.example'' 200)
                \<lparr>lastActionTS := 880 * Second, rtt := Some \<lparr>decay = 10, ewmaValue = 190\<rparr>\<rparr>], True)"
  apply (simp only: estimatorAdjust_def)
  apply (simp add: laggardPool_def probedServer_def emptyServerInfo_def)
  apply (simp add: Let_def MinF_def MaxF_def ewmaAdd_def)
  apply (simp add: exampleEnv_def Minute_def Second_def)
  done

text \<open>
  C3. The claim: after the second-chance update the candidate's average equals
  \<open>min(max(cRtt/2, 2 bRtt), cRtt)\<close>. It fails on a pool whose best server stands at
  10 ms and whose candidate stands at 200 ms, last used 120 s ago: the target is 100, and
  the candidate's average after the update is 190, because the target is given to
  \<open>rtt.Add\<close> as one sample of the moving average.
\<close>

theorem second_chance_value_is_not_target:
  "estimatorAdjust exampleEnv 1 laggardPool 2 =
     Return ([(probedServer ''best'' ''up.example'' 10)\<lparr>lastActionTS := 999 * Second\<rparr>,
              (probedServer ''laggard'' ''slow.example'' 200)
                \<lparr>lastActionTS := 880 * Second,
                 rtt := Some \<lparr>decay = 10, ewmaValue = 190\<rparr>\<rparr>], True)
   \<and> min (max (200 / 2) (2 * 10)) 200 = (100::real)"
  using adjust_laggard by simp

text \<open>
  C3, as amended: when the candidate is not 0, \<open>bRtt \<ge> 0\<close>, \<open>cRtt > 0\<close>,
  \<open>cRtt \<ge> 4 bRtt\<close> and the candidate's last action is more than 60 s old, the
  candidate's average right after the second-chance update is the moving average of its
  old value and the sample \<open>min(max(cRtt/2, 2 bRtt), cRtt)\<close>, that is
  \<open>(cRtt (N - 1) + min(max(cRtt/2, 2 bRtt), cRtt)) / N\<close> for an average of decay \<open>N\<close>;
  for \<open>N > 1\<close> it lies strictly between that sample and \<open>cRtt\<close>.
\<close>

theorem second_chance_adds_one_sample:
  assumes "candidate \<noteq> 0" and "candidate < length pool"
    and "rtt (pool ! candidate) = Some cE" and "rtt (pool ! 0) = Some bE"
    and "0 \<le> ewmaValue bE"
    and "ewmaValue cE > 0" and "ewmaValue cE \<ge> 4 * ewmaValue bE"
    and "timeNow env w - lastActionTS (pool ! candidate) > 60 * Second"
  shows "\<exists>pool' cE'. estimatorAdjust env candidate pool w = Return (pool', True) \<and>
           rtt (pool' ! candidate) = Some cE' \<and>
           ewmaValue cE' =
             (ewmaValue cE * (decay cE - 1)
                + min (max (ewmaValue cE / 2) (2 * ewmaValue bE)) (ewmaValue cE)) / decay cE \<and>
           (1 < decay cE \<longrightarrow>
              min (max (ewmaValue cE / 2) (2 * ewmaValue bE)) (ewmaValue cE) < ewmaValue cE' \<and>
              ewmaValue cE' < ewmaValue cE)"
proof -
  let ?c = "ewmaValue cE" and ?b = "ewmaValue bE" and ?N = "decay cE"
  let ?t = "min (max (?c / 2) (2 * ?b)) ?c"
  have tgt: "?t = ?c / 2"
    using assms(6,7) by (simp add: min_def max_def)
  have strict: "?c / 2 < (?c * (?N - 1) + ?c / 2) / ?N \<and> (?c * (?N - 1) + ?c / 2) / ?N < ?c"
    if N: "1 < ?N"
  proof
    have "?c * (?N - 1) + ?c / 2 - ?c / 2 * ?N = ?c / 2 * (?N - 1)" by (simp add: algebra_simps)
    moreover have "0 < ?c / 2 * (?N - 1)" using assms(6) N by simp
    ultimately have "?c / 2 * ?N < ?c * (?N - 1) + ?c / 2" by linarith
    then show "?c / 2 < (?c * (?N - 1) + ?c / 2) / ?N" using N by (simp add: pos_less_divide_eq)
    have "?c * (?N - 1) + ?c / 2 < ?c * ?N" using assms(6) by (simp add: algebra_simps)
    then show "(?c * (?N - 1) + ?c / 2) / ?N < ?c" using N by (simp add: pos_divide_less_eq)
  qed
  have run: "estimatorAdjust env candidate pool w =
           Return (pool[candidate := (pool ! candidate)\<lparr>rtt := Some (ewmaAdd ?t cE)\<rparr>], True)"
    using assms
    by (simp add: estimatorAdjust_def Let_def Minute_def MinF_def MaxF_def min_def max_def mult.commute)
  have val: "ewmaValue (ewmaAdd ?t cE) = (?c * (?N - 1) + ?t) / ?N"
    by (simp add: ewmaAdd_def)
  show ?thesis
    using run val strict assms(2) unfolding tgt by auto
qed

theorem second_chance_adds_one_sample_witness:
  "timeNow exampleEnv 2 - lastActionTS (laggardPool ! 1) > 60 * Second \<and>
   estimatorAdjust exampleEnv 1 laggardPool 2 =
     Return ([(probedServer ''best'' ''up.example'' 10)\<lparr>lastActionTS := 999 * Second\<rparr>,
              (probedServer ''laggard'' ''slow.example'' 200)
                \<lparr>lastActionTS := 880 * Second, rtt := Some \<lparr>decay = 10, ewmaValue = 190\<rparr>\<rparr>], True) \<and>
   (200 * (10 - 1) + min (max (200 / 2) (2 * 10)) 200) / 10 = (190::real) \<and>
   min (max (200 / 2) (2 * 10)) 200 < (190::real) \<and> (190::real) < 200"
  using second_chance_adds_one_sample [of 1 laggardPool
     "\<lparr>decay = 10, ewmaValue = 200\<rparr>" "\<lparr>decay = 10, ewmaValue = 10\<rparr>" exampleEnv 2] adjust_laggard
  by (simp add: exampleEnv_def laggardPool_def Second_def)

text \<open>
  C4. Under the conditions of the second chance (candidate not 0, \<open>cRtt > 0\<close>,
  \<open>cRtt \<ge> 4 bRtt\<close>, last action more than 60 s ago), for an average of decay at
  least 1, the candidate's average after the update lies between \<open>2 bRtt\<close> and
  \<open>cRtt\<close>, so it is not greater than before; and the pass of adjacent swaps that follows
  keeps that entry in the pool.
\<close>

theorem second_chance_within_bounds:
  assumes "inner serversInfo \<noteq> []"
    and "Intn env w (length (inner serversInfo)) = (candidate, w1)" and "candidate \<noteq> 0"
    and "rtt (inner serversInfo ! candidate) = Some cE"
    and "rtt (inner serversInfo ! 0) = Some bE"
    and "1 \<le> decay cE"
    and "ewmaValue cE > 0" and "ewmaValue cE \<ge> 4 * ewmaValue bE"
    and "timeNow env w1 - lastActionTS (inner serversInfo ! candidate) > 60 * Second"
  shows "\<exists>pool' partialSort cE'.
           estimatorAdjust env candidate (inner serversInfo) w1 = Return (pool', partialSort) \<and>
           rtt (pool' ! candidate) = Some cE' \<and>
           2 * ewmaValue bE \<le> ewmaValue cE' \<and> ewmaValue cE' \<le> ewmaValue cE \<and>
           (\<forall>after w'. estimatorUpdate env serversInfo w = Return (after, w')
                        \<longrightarrow> pool' ! candidate \<in> set (inner after))"
proof -
  from assms(1,2) have lt: "candidate < length (inner serversInfo)"
    using Intn_less [of "length (inner serversInfo)" env w candidate w1] by simp
  from second_chance_bounds [OF assms(3) lt assms(4-9)]
  obtain pool' partialSort cE' where
    adj: "estimatorAdjust env candidate (inner serversInfo) w1 = Return (pool', partialSort)"
    and len: "length pool' = length (inner serversInfo)"
    and rest: "rtt (pool' ! candidate) = Some cE'" "2 * ewmaValue bE \<le> ewmaValue cE'"
      "ewmaValue cE' \<le> ewmaValue cE"
    by blast
  have "pool' ! candidate \<in> set (inner after)"
    if "estimatorUpdate env serversInfo w = Return (after, w')" for after w'
    using estimatorUpdate_set [OF assms(2,3,1) adj that] lt len by simp
  with adj rest show ?thesis by blast
qed

theorem second_chance_within_bounds_witness:
  "Intn exampleEnv 1 (length laggardPool) = (1, 2) \<and>
   estimatorAdjust exampleEnv 1 laggardPool 2 =
     Return ([(probedServer ''best'' ''up.example'' 10)\<lparr>lastActionTS := 999 * Second\<rparr>,
              (probedServer ''laggard'' ''slow.example'' 200)
                \<lparr>lastActionTS := 880 * Second, rtt := Some \<lparr>decay = 10, ewmaValue = 190\<rparr>\<rparr>], True) \<and>
   2 * 10 \<le> (190::real) \<and> (190::real) \<le> 200"
  using second_chance_within_bounds [of "slowThenUp\<lparr>inner := laggardPool\<rparr>" exampleEnv 1 1 2
     "\<lparr>decay = 10, ewmaValue = 200\<rparr>" "\<lparr>decay = 10, ewmaValue = 10\<rparr>"] adjust_laggard
  by (simp add: Intn_def exampleEnv_def laggardPool_def)

section \<open>Relay resolution by name\<close>

lemma lookupStamp_findName:
  "lookupStamp relayName rs cur =
     (case findName Name relayName rs of Some j \<Rightarrow> Some (Stamp (rs ! j)) | None \<Rightarrow> cur)"
  by (induction rs) (auto split: option.splits)

lemmas route_ex = exampleEnv_def exampleProxy_def proxyBoth_def proxyRelayOnly_def registered_def
  relayStamp_def dnscryptStamp_def Intn_def

text \<open>
  C6. The claim: for a relay name that is neither a stamp nor a host and port, and that
  the relay registry knows, the relay registry's stamp is the one resolved, also when the
  server registry knows the name. It fails for the route of \<open>proxyBoth\<close>: the second
  loop of \<open>route\<close> runs after the first and assigns the stamp of the server registry,
  whose address is the one resolved.
\<close>

theorem route_prefers_server_registry:
  "NewServerStampFromString exampleEnv ''anon'' = Inl (ErrExternal ''invalid stamp'') \<and>
   ResolveUDPAddr exampleEnv 1 ''anon'' = (Inl (ErrExternal ''no such host''), 2) \<and>
   RegisteredRelays proxyBoth = [registered ''anon'' (relayStamp ''192.0.2.7:443'')] \<and>
   RegisteredServers proxyBoth = [registered ''anon'' (dnscryptStamp ''192.0.2.1:443'')] \<and>
   relayCandidateStamp exampleEnv proxyBoth ''anon'' 1
     = (Some (dnscryptStamp ''192.0.2.1:443''), 2) \<and>
   route exampleEnv proxyBoth ''srv'' (dnscryptStamp ''198.51.100.1:443'') 0
     = (Inr (Some ''192.0.2.1:443'', Some ''192.0.2.1:443''), 4)"
  by (simp add: route_ex route_def relayCandidateStamp_def resolveRelayStamp_def)

text \<open>
  C6, as amended: for a relay name that is neither a stamp nor a host and port, and that
  the relay registry knows, the stamp resolved is the one of the server registry when the
  server registry knows the name too, and the one of the relay registry only when it does
  not: the server registry is consulted last and takes precedence.
\<close>

theorem route_named_relay_server_registry_first:
  assumes "Routes proxy = Some routes"
    and "(case routes name of Some r \<Rightarrow> Some r | None \<Rightarrow> routes ''*'') = Some relayNames"
    and "relayNames \<noteq> []"
    and "Intn env w (length relayNames) = (candidate, w1)"
    and "relayNames ! candidate = relayName" and "relayName \<noteq> []"
    and "NewServerStampFromString env relayName = Inl e1"
    and "ResolveUDPAddr env w1 relayName = (Inl e2, w2)"
    and "findName Name relayName (RegisteredRelays proxy) = Some i"
  shows "route env proxy name stamp w =
           resolveRelayStamp env relayName name
             (case findName Name relayName (RegisteredServers proxy) of
                Some j \<Rightarrow> Stamp (RegisteredServers proxy ! j)
              | None \<Rightarrow> Stamp (RegisteredRelays proxy ! i)) w2"
  using assms
  by (simp add: route_def relayCandidateStamp_def lookupStamp_findName split: option.splits)

theorem route_named_relay_server_registry_first_witness:
  "findName Name ''anon'' (RegisteredRelays proxyRelayOnly) = Some 0 \<and>
   findName Name ''anon'' (RegisteredServers proxyRelayOnly) = None \<and>
   route exampleEnv proxyRelayOnly ''srv'' (dnscryptStamp ''198.51.100.1:443'') 0 =
     resolveRelayStamp exampleEnv ''anon'' ''srv'' (relayStamp ''192.0.2.7:443'') 2 \<and>
   resolveRelayStamp exampleEnv ''anon'' ''srv'' (relayStamp ''192.0.2.7:443'') 2 =
     (Inr (Some ''192.0.2.7:443'', Some ''192.0.2.7:443''), 4)"
  using route_named_relay_server_registry_first [of proxyRelayOnly "[''srv'' \<mapsto> [''anon'']]" "''srv''"
     "[''anon'']" exampleEnv 0 0 1 "''anon''" "ErrExternal ''invalid stamp''"
     "ErrExternal ''no such host''" 2 0 "dnscryptStamp ''198.51.100.1:443''"]
  by (simp add: route_ex resolveRelayStamp_def)

section \<open>The DoH probe\<close>

lemma matchHashes_found:
  "fst (matchHashes h hashes wantedHash) \<longleftrightarrow> (\<exists>hash \<in> set hashes. length hash = 32 \<and> h = hash)"
  by (induction hashes arbitrary: wantedHash) auto

lemma matchCerts_found:
  "fst (matchCerts env certs hashes wantedHash) \<longleftrightarrow>
     (\<exists>cert \<in> set certs. \<exists>hash \<in> set hashes.
        length hash = 32 \<and> sha256Sum env (RawTBSCertificate cert) = hash)"
proof (induction certs arbitrary: wantedHash)
  case Nil
  then show ?case by simp
next
  case (Cons cert certs)
  obtain found wh where m: "matchHashes (sha256Sum env (RawTBSCertificate cert)) hashes wantedHash = (found, wh)"
    by (cases "matchHashes (sha256Sum env (RawTBSCertificate cert)) hashes wantedHash")
  from m have f: "found \<longleftrightarrow> (\<exists>hash \<in> set hashes. length hash = 32 \<and> sha256Sum env (RawTBSCertificate cert) = hash)"
    using matchHashes_found [of "sha256Sum env (RawTBSCertificate cert)" hashes wantedHash] by simp
  show ?case
    using m f Cons.IH [of wh] by auto
qed

lemma unexpectedResponse_ok:
  assumes "6 \<le> MinDNSPacketSize env"
  shows "unexpectedResponse env respBody = Return False \<longleftrightarrow>
           MinDNSPacketSize env \<le> int (length respBody) \<and>
           int (length respBody) \<le> MaxDNSPacketSize env \<and>
           respBody ! 0 = 0xca \<and> respBody ! 1 = 0xfe \<and> respBody ! 4 = 0x00 \<and> respBody ! 5 = 0x01"
proof (cases "int (length respBody) < MinDNSPacketSize env \<or> int (length respBody) > MaxDNSPacketSize env")
  case True
  then show ?thesis by (auto simp: unexpectedResponse_def)
next
  case False
  with assms have "5 < length respBody" by simp
  with False show ?thesis
    by (auto simp: unexpectedResponse_def byteAt_def)
qed

text \<open>
  C7. For the response that the transport returned to the probe, \<open>fetchDoHServerInfo\<close>
  returns a \<open>ServerInfo\<close> exactly when the TLS handshake is complete, the stamp has no
  hashes or the SHA-256 of the TBS bytes of a peer certificate is one of its hashes of 32
  bytes, and the body read under the limit \<open>MaxHTTPBodyLength\<close> has a length from
  \<open>MinDNSPacketSize\<close> to \<open>MaxDNSPacketSize\<close> and the bytes \<open>ca fe\<close> at 0 and 1 and
  \<open>00 01\<close> at 4 and 5. The constants are those of the package, of which only
  \<open>MinDNSPacketSize \<ge> 6\<close> is used (the indices read are in range).
\<close>

theorem fetchDoHServerInfo_accepts_iff:
  assumes "6 \<le> MinDNSPacketSize env"
    and "dohProbe env proxy \<lparr>Scheme = ''https'', Host = ProviderName stamp, urlPath = Path stamp\<rparr>
           (cacheStampIP env stamp w) = (Inr useGet0, w2)"
    and "DoHQuery env w2 useGet0 \<lparr>Scheme = ''https'', Host = ProviderName stamp, urlPath = Path stamp\<rparr>
           probeBody (Timeout proxy) = (Inr (resp, rtt0), w3)"
  shows "(\<exists>info w'. fetchDoHServerInfo env proxy name stamp isNew w = Return (Inr info, w')) \<longleftrightarrow>
         (\<exists>tls. TLS resp = Some tls \<and> HandshakeComplete tls \<and>
            (Hashes stamp = [] \<or>
             (\<exists>cert \<in> set (PeerCertificates tls). \<exists>hash \<in> set (Hashes stamp).
                length hash = 32 \<and> sha256Sum env (RawTBSCertificate cert) = hash))) \<and>
         (\<exists>respBody. ReadAllLimited (MaxHTTPBodyLength env) (Body resp) = Inr respBody \<and>
            MinDNSPacketSize env \<le> int (length respBody) \<and>
            int (length respBody) \<le> MaxDNSPacketSize env \<and>
            respBody ! 0 = 0xca \<and> respBody ! 1 = 0xfe \<and>
            respBody ! 4 = 0x00 \<and> respBody ! 5 = 0x01)"
proof (cases "TLS resp")
  case None
  with assms(2,3) show ?thesis by (simp add: fetchDoHServerInfo_def)
next
  case (Some tls)
  show ?thesis
  proof (cases "HandshakeComplete tls")
    case False
    with Some assms(2,3) show ?thesis by (simp add: fetchDoHServerInfo_def)
  next
    case True
    obtain found wh where mc:
      "matchCerts env (PeerCertificates tls) (Hashes stamp) (replicate 32 0) = (found, wh)"
      by (cases "matchCerts env (PeerCertificates tls) (Hashes stamp) (replicate 32 0)")
    then have found: "found \<longleftrightarrow> (\<exists>cert \<in> set (PeerCertificates tls). \<exists>hash \<in> set (Hashes stamp).
                length hash = 32 \<and> sha256Sum env (RawTBSCertificate cert) = hash)"
      using matchCerts_found [of env "PeerCertificates tls" "Hashes stamp" "replicate 32 0"] by simp
    show ?thesis
    proof (cases "\<not> found \<and> length (Hashes stamp) > 0")
      case True
      with Some \<open>HandshakeComplete tls\<close> mc found assms(2,3) show ?thesis
        by (auto simp: fetchDoHServerInfo_def)
    next
      case False
      then have pins: "Hashes stamp = [] \<or> (\<exists>cert \<in> set (PeerCertificates tls). \<exists>hash \<in> set (Hashes stamp).
                length hash = 32 \<and> sha256Sum env (RawTBSCertificate cert) = hash)"
        using found by auto
      show ?thesis
      proof (cases "ReadAllLimited (MaxHTTPBodyLength env) (Body resp)")
        case (Inl err)
        with Some \<open>HandshakeComplete tls\<close> mc False assms(2,3) show ?thesis
          by (simp add: fetchDoHServerInfo_def)
      next
        case (Inr respBody)
        have "(\<exists>info w'. fetchDoHServerInfo env proxy name stamp isNew w = Return (Inr info, w'))
                \<longleftrightarrow> unexpectedResponse env respBody = Return False"
          using Some \<open>HandshakeComplete tls\<close> mc False assms(2,3) Inr
          by (auto simp: fetchDoHServerInfo_def split: outcome.splits bool.splits)
        with unexpectedResponse_ok [OF assms(1), of respBody] Some \<open>HandshakeComplete tls\<close> pins Inr
        show ?thesis by auto
      qed
    qed
  qed
qed

theorem fetchDoHServerInfo_accepts_iff_witness:
  "fetchDoHServerInfo exampleEnv exampleProxy ''up'' (dohStamp ''up.example'') True 0
     = Return (Inr ((probedServer ''up'' ''up.example'' 25)\<lparr>rtt := None\<rparr>), 2) \<and>
   int (length exampleBody) = MinDNSPacketSize exampleEnv \<and>
   Hashes (dohStamp ''up.example'') = [] \<and>
   fetchDoHServerInfo shortEnv exampleProxy ''up'' (dohStamp ''up.example'') True 0
     = Return (Inl ErrUnexpectedResponse, 2) \<and>
   int (length (butlast exampleBody)) = MinDNSPacketSize shortEnv - 1"
  using fetchDoHServerInfo_accepts_iff [where env = exampleEnv and proxy = exampleProxy
      and stamp = "dohStamp ''up.example''" and w = 0 and ?useGet0.0 = False and ?w2.0 = 1
      and resp = exampleResponse and ?rtt0.0 = 25000000 and ?w3.0 = 2 and name = "''up''"
      and isNew = True]
  by (simp add: example_defs fetchDoH_defs shortEnv_def)

section \<open>The stages of the pipeline\<close>

lemma queryLoop_stops:
  assumes "action pluginsState = PluginsActionForward"
    and "queryLoop codec g packet ps pluginsState msg w = (res, st', msg', w')"
    and "res \<noteq> None \<or> action st' \<noteq> PluginsActionForward"
  shows "queryLoop codec g packet (ps @ post) pluginsState msg w = (res, st', msg', w')"
  using assms
proof (induction ps arbitrary: pluginsState msg w)
  case Nil
  then show ?case by auto
next
  case (Cons plugin ps)
  obtain err st1 msg1 w1 where ev: "Eval plugin w pluginsState msg = ((err, st1, msg1), w1)"
    by (metis prod_cases3 surj_pair)
  show ?case
  proof (cases err)
    case (Some e)
    with ev Cons.prems show ?thesis by simp
  next
    case None
    show ?thesis
    proof (cases "synthOnReject codec g st1 msg1")
      case (Inl e)
      with ev None Cons.prems show ?thesis by simp
    next
      case (Inr synth)
      let ?st2 = "case synth of None \<Rightarrow> st1 | Some s \<Rightarrow> st1\<lparr>synthResponse := Some s\<rparr>"
      show ?thesis
      proof (cases "action ?st2 \<noteq> PluginsActionForward")
        case True
        with ev None Inr Cons.prems show ?thesis by (simp add: Let_def)
      next
        case False
        then have fw: "action ?st2 = PluginsActionForward" by simp
        from ev None Inr False Cons.prems(2)
        have run: "queryLoop codec g packet ps ?st2 msg1 w1 = (res, st', msg', w')"
          by (simp add: Let_def)
        from Cons.IH [OF fw run Cons.prems(3)] ev None Inr False
        show ?thesis by (simp add: Let_def)
      qed
    qed
  qed
qed

lemma responseLoop_stops:
  assumes "action pluginsState = PluginsActionForward"
    and "responseLoop codec g packet ps pluginsState msg w = Return (res, st', msg', w')"
    and "res \<noteq> None \<or> action st' \<noteq> PluginsActionForward"
  shows "responseLoop codec g packet (ps @ post) pluginsState msg w = Return (res, st', msg', w')"
  using assms
proof (induction ps arbitrary: pluginsState msg w)
  case Nil
  then show ?case by auto
next
  case (Cons plugin ps)
  obtain err st1 msg1 w1 where ev: "Eval plugin w pluginsState msg = ((err, st1, msg1), w1)"
    by (metis prod_cases3 surj_pair)
  show ?case
  proof (cases err)
    case (Some e)
    with ev Cons.prems show ?thesis by simp
  next
    case None
    show ?thesis
    proof (cases "synthOnReject codec g st1 msg1")
      case (Inl e)
      with ev None Cons.prems show ?thesis by simp
    next
      case (Inr synth)
      show ?thesis
      proof (cases synth)
        case None2: None
        show ?thesis
        proof (cases "action st1 \<noteq> PluginsActionForward")
          case True
          with ev None Inr None2 Cons.prems show ?thesis by simp
        next
          case False
          then have fw: "action st1 = PluginsActionForward" by simp
          from ev None Inr None2 False Cons.prems(2)
          have run: "responseLoop codec g packet ps st1 msg1 w1 = Return (res, st', msg', w')"
            by simp
          from Cons.IH [OF fw run Cons.prems(3)] ev None Inr None2 False
          show ?thesis by simp
        qed
      next
        case (Some s)
        let ?st2 = "st1\<lparr>synthResponse := Some s\<rparr>"
        from ev None Inr Some Cons.prems(2) have q: "Question s \<noteq> []"
          by (auto split: if_splits)
        show ?thesis
        proof (cases "action ?st2 \<noteq> PluginsActionForward")
          case True
          with ev None Inr Some q Cons.prems show ?thesis by (simp add: Let_def)
        next
          case False
          then have fw: "action ?st2 = PluginsActionForward" by simp
          from ev None Inr Some q False Cons.prems(2)
          have run: "responseLoop codec g packet ps ?st2 msg1 w1 = Return (res, st', msg', w')"
            by (simp add: Let_def)
          from Cons.IH [OF fw run Cons.prems(3)] ev None Inr Some q False
          show ?thesis by (simp add: Let_def)
        qed
      qed
    qed
  qed
qed

lemma synthOnReject_globals:
  "synthOnReject codec (g\<lparr>queryPlugins := qs\<rparr>) st m = synthOnReject codec g st m"
  "synthOnReject codec (g\<lparr>responsePlugins := rs\<rparr>) st m = synthOnReject codec g st m"
  by (simp_all add: synthOnReject_def)

lemma queryLoop_globals:
  "queryLoop codec (g\<lparr>queryPlugins := qs\<rparr>) packet ps pluginsState msg w
     = queryLoop codec g packet ps pluginsState msg w"
  by (induction ps arbitrary: pluginsState msg w)
     (auto simp: synthOnReject_globals Let_def split: prod.splits option.splits sum.splits)

lemma responseLoop_globals:
  "responseLoop codec (g\<lparr>responsePlugins := rs\<rparr>) packet ps pluginsState msg w
     = responseLoop codec g packet ps pluginsState msg w"
  by (induction ps arbitrary: pluginsState msg w)
     (auto simp: synthOnReject_globals Let_def split: prod.splits option.splits sum.splits)

lemma query_stage_stops:
  assumes "ps \<noteq> []"
    and a: "ApplyQueryPlugins codec (g\<lparr>queryPlugins := ps\<rparr>) pluginsState packet name w = (res, st', w')"
    and b: "action st' \<noteq> PluginsActionForward"
  shows "ApplyQueryPlugins codec (g\<lparr>queryPlugins := ps @ post\<rparr>) pluginsState packet name w
           = (res, st', w')"
proof -
  let ?st1 = "pluginsState\<lparr>serverName := name, action := PluginsActionForward\<rparr>"
  from a b assms(1) obtain msg where un: "Unpack codec packet = Inr msg"
    and q: "\<not> length (Question msg) > 1"
    by (auto simp: ApplyQueryPlugins_def Let_def split: sum.splits if_splits)
  let ?st2 = "?st1\<lparr>questionMsg := Some msg\<rparr>"
  obtain r st2 msg2 w2 where
    run: "queryLoop codec g packet ps ?st2 msg w = (r, st2, msg2, w2)"
    by (metis prod_cases4)
  have stop: "r \<noteq> None \<or> action st2 \<noteq> PluginsActionForward"
    using a b assms(1) un q run
    by (auto simp: ApplyQueryPlugins_def Let_def queryLoop_globals split: sum.splits option.splits)
  have fw: "action ?st2 = PluginsActionForward" by simp
  from queryLoop_stops [OF fw run stop, of post]
  have run': "queryLoop codec g packet (ps @ post) ?st2 msg w = (r, st2, msg2, w2)" .
  from a assms(1) un q run run' show ?thesis
    by (simp add: ApplyQueryPlugins_def Let_def queryLoop_globals)
qed

lemma response_stage_stops:
  assumes "ps \<noteq> []"
    and a: "ApplyResponsePlugins env codec (g\<lparr>responsePlugins := ps\<rparr>) pluginsState packet ttl w
              = Return (res, st', w')"
    and b: "action st' \<noteq> PluginsActionForward"
  shows "ApplyResponsePlugins env codec (g\<lparr>responsePlugins := ps @ post\<rparr>) pluginsState packet ttl w
           = Return (res, st', w')"
proof -
  let ?st1 = "pluginsState\<lparr>action := PluginsActionForward\<rparr>"
  from a b assms(1) obtain msg where un: "Unpack codec packet = Inr msg"
    by (auto simp: ApplyResponsePlugins_def Let_def split: sum.splits if_splits)
  let ?st2 = "?st1\<lparr>returnCode := returnCodeOfRcode (Rcode codec packet)\<rparr>"
  from a assms(1) un obtain r st2 msg2 w2 where
    run: "responseLoop codec g packet ps ?st2 msg w = Return (r, st2, msg2, w2)"
    by (auto simp: ApplyResponsePlugins_def Let_def responseLoop_globals split: outcome.splits)
  have stop: "r \<noteq> None \<or> action st2 \<noteq> PluginsActionForward"
    using a b assms(1) un run
    by (auto simp: ApplyResponsePlugins_def Let_def responseLoop_globals split: sum.splits option.splits)
  have fw: "action ?st2 = PluginsActionForward" by simp
  from responseLoop_stops [OF fw run stop, of post]
  have run': "responseLoop codec g packet (ps @ post) ?st2 msg w = Return (r, st2, msg2, w2)" .
  from a assms(1) un run run' show ?thesis
    by (simp add: ApplyResponsePlugins_def Let_def responseLoop_globals)
qed

lemmas plugin_defs = exampleCodec_def exampleGlobals_def exampleState_def passPlugin_def
  rejectPlugin_def failPlugin_def exampleMsg_def exampleQuestion_def

lemma query_reject_eval:
  "ApplyQueryPlugins exampleCodec (exampleGlobals\<lparr>queryPlugins := [passPlugin, rejectPlugin]\<rparr>)
     exampleState [0xca, 0xfe] ''up'' 0
   = ((Some [0xca, 0xfe], None),
      exampleState\<lparr>serverName := ''up'', action := PluginsActionReject,
        questionMsg := Some (exampleMsg [exampleQuestion]),
        synthResponse := Some ((exampleMsg [exampleQuestion])\<lparr>MsgHdr := 5\<rparr>)\<rparr>, 2)"
  by (simp add: ApplyQueryPlugins_def plugin_defs synthOnReject_def Let_def)

lemma response_reject_eval:
  "ApplyResponsePlugins exampleEnv exampleCodec (exampleGlobals\<lparr>responsePlugins := [passPlugin, rejectPlugin]\<rparr>)
     exampleState [0xca, 0xfe] None 0
   = Return ((Some [0xca, 0xfe], None),
      exampleState\<lparr>action := PluginsActionReject,
        returnCode := PluginsReturnCodePass,
        synthResponse := Some ((exampleMsg [exampleQuestion])\<lparr>MsgHdr := 5\<rparr>)\<rparr>, 2)"
  by (simp add: ApplyResponsePlugins_def plugin_defs synthOnReject_def Let_def returnCodeOfRcode_def RcodeSuccess_def)

lemma query_fail_eval:
  "queryLoop exampleCodec exampleGlobals [0xca, 0xfe] [failPlugin, passPlugin] exampleState
     (exampleMsg [exampleQuestion]) 0
   = (Some (Some [0xca, 0xfe], Some (ErrExternal ''module failed'')),
      exampleState\<lparr>action := PluginsActionDrop\<rparr>, exampleMsg [exampleQuestion], 1)"
  by (simp add: plugin_defs)

text \<open>
  C9. A stage that ends with an action other than \<open>Forward\<close> (a module set it, or the
  stage set \<open>Drop\<close> on a module's error) has evaluated its last module: with any further
  modules after those of the sequence, the stage returns the same packet and error, the
  same state and the same world, so none of them is evaluated. This holds for the query
  stage and for the response stage. A module's error makes the loop set \<open>Drop\<close> and
  return the input packet with that error.
\<close>

theorem stage_stops_when_action_leaves_Forward:
  assumes "ps \<noteq> []"
  shows "(ApplyQueryPlugins codec (g\<lparr>queryPlugins := ps\<rparr>) pluginsState packet name w
            = (res, st', w') \<and> action st' \<noteq> PluginsActionForward
          \<longrightarrow> ApplyQueryPlugins codec (g\<lparr>queryPlugins := ps @ post\<rparr>) pluginsState packet name w
                = (res, st', w')) \<and>
         (ApplyResponsePlugins env codec (g\<lparr>responsePlugins := ps\<rparr>) rstate rpacket ttl rw
            = Return (rres, rst', rw') \<and> action rst' \<noteq> PluginsActionForward
          \<longrightarrow> ApplyResponsePlugins env codec (g\<lparr>responsePlugins := ps @ post\<rparr>) rstate rpacket
                  ttl rw
                = Return (rres, rst', rw')) \<and>
         (Eval plugin w0 st0 msg0 = ((Some err, st1, msg1), w1)
          \<longrightarrow> queryLoop codec g packet (plugin # post) st0 msg0 w0
                = (Some (Some packet, Some err), st1\<lparr>action := PluginsActionDrop\<rparr>, msg1, w1)
              \<and> responseLoop codec g packet (plugin # post) st0 msg0 w0
                = Return (Some (Some packet, Some err), st1\<lparr>action := PluginsActionDrop\<rparr>,
                          msg1, w1))"
proof (intro conjI impI)
  assume "ApplyQueryPlugins codec (g\<lparr>queryPlugins := ps\<rparr>) pluginsState packet name w
            = (res, st', w') \<and> action st' \<noteq> PluginsActionForward"
  then show "ApplyQueryPlugins codec (g\<lparr>queryPlugins := ps @ post\<rparr>) pluginsState packet name w
               = (res, st', w')"
    using query_stage_stops [OF assms] by simp
next
  assume "ApplyResponsePlugins env codec (g\<lparr>responsePlugins := ps\<rparr>) rstate rpacket ttl rw
            = Return (rres, rst', rw') \<and> action rst' \<noteq> PluginsActionForward"
  then show "ApplyResponsePlugins env codec (g\<lparr>responsePlugins := ps @ post\<rparr>) rstate rpacket
               ttl rw = Return (rres, rst', rw')"
    using response_stage_stops [OF assms] by simp
next
  assume "Eval plugin w0 st0 msg0 = ((Some err, st1, msg1), w1)"
  then show "queryLoop codec g packet (plugin # post) st0 msg0 w0
               = (Some (Some packet, Some err), st1\<lparr>action := PluginsActionDrop\<rparr>, msg1, w1)"
    by simp
next
  assume "Eval plugin w0 st0 msg0 = ((Some err, st1, msg1), w1)"
  then show "responseLoop codec g packet (plugin # post) st0 msg0 w0
               = Return (Some (Some packet, Some err), st1\<lparr>action := PluginsActionDrop\<rparr>,
                         msg1, w1)"
    by simp
qed

theorem stage_stops_when_action_leaves_Forward_witness:
  "ApplyQueryPlugins exampleCodec
     (exampleGlobals\<lparr>queryPlugins := [passPlugin, rejectPlugin] @ [failPlugin]\<rparr>)
     exampleState [0xca, 0xfe] ''up'' 0
   = ((Some [0xca, 0xfe], None),
      exampleState\<lparr>serverName := ''up'', action := PluginsActionReject,
        questionMsg := Some (exampleMsg [exampleQuestion]),
        synthResponse := Some ((exampleMsg [exampleQuestion])\<lparr>MsgHdr := 5\<rparr>)\<rparr>, 2) \<and>
   ApplyResponsePlugins exampleEnv exampleCodec
     (exampleGlobals\<lparr>responsePlugins := [passPlugin, rejectPlugin] @ [failPlugin]\<rparr>)
     exampleState [0xca, 0xfe] None 0
   = Return ((Some [0xca, 0xfe], None),
      exampleState\<lparr>action := PluginsActionReject, returnCode := PluginsReturnCodePass,
        synthResponse := Some ((exampleMsg [exampleQuestion])\<lparr>MsgHdr := 5\<rparr>)\<rparr>, 2) \<and>
   queryLoop exampleCodec exampleGlobals [0xca, 0xfe] (failPlugin # [passPlugin]) exampleState
     (exampleMsg [exampleQuestion]) 0
   = (Some (Some [0xca, 0xfe], Some (ErrExternal ''module failed'')),
      exampleState\<lparr>action := PluginsActionDrop\<rparr>, exampleMsg [exampleQuestion], 1)"
  using stage_stops_when_action_leaves_Forward [where ps = "[passPlugin, rejectPlugin]"
      and post = "[failPlugin]" and codec = exampleCodec and g = exampleGlobals
      and pluginsState = exampleState and packet = "[0xca, 0xfe]" and name = "''up''" and w = 0
      and res = "(Some [0xca, 0xfe], None)"
      and st' = "exampleState\<lparr>serverName := ''up'', action := PluginsActionReject,
        questionMsg := Some (exampleMsg [exampleQuestion]),
        synthResponse := Some ((exampleMsg [exampleQuestion])\<lparr>MsgHdr := 5\<rparr>)\<rparr>"
      and w' = 2 and env = exampleEnv and ttl = None
      and rstate = exampleState and rpacket = "[0xca, 0xfe]" and rw = 0
      and rres = "(Some [0xca, 0xfe], None)"
      and rst' = "exampleState\<lparr>action := PluginsActionReject,
        returnCode := PluginsReturnCodePass,
        synthResponse := Some ((exampleMsg [exampleQuestion])\<lparr>MsgHdr := 5\<rparr>)\<rparr>"
      and rw' = 2
      and plugin = failPlugin and ?w0.0 = 0 and ?st0.0 = exampleState
      and ?msg0.0 = "exampleMsg [exampleQuestion]"
      and err = "ErrExternal ''module failed''" and ?st1.0 = exampleState
      and ?msg1.0 = "exampleMsg [exampleQuestion]" and ?w1.0 = 1]
    query_reject_eval response_reject_eval query_fail_eval
  by simp

text \<open>
  C10. The claim: with a logging module configured, \<open>ApplyLoggingPlugins\<close> returns an
  error for every state whose question message is absent or has a number of questions
  other than one, zero included. It fails for a message without a question: the check of
  line 328 is \<open>len(questionMsg.Question) > 1\<close>, the stage returns no error and its module
  has been evaluated (the world is at 1).
\<close>

theorem logging_accepts_zero_questions:
  "ApplyLoggingPlugins exampleEnv (exampleGlobals\<lparr>loggingPlugins := [passPlugin]\<rparr>)
     (exampleState\<lparr>questionMsg := Some (exampleMsg [])\<rparr>) 0
   = (None, exampleState\<lparr>questionMsg := Some (exampleMsg []), requestEnd := 1000 * Second\<rparr>, 1)
   \<and> length (Question (exampleMsg [])) = 0"
  by (simp add: ApplyLoggingPlugins_def plugin_defs exampleEnv_def)

text \<open>
  C10, as amended: with a logging module configured, \<open>ApplyLoggingPlugins\<close> returns
  the error, without evaluating a module, for every state whose question message is absent
  or has more than one question; for a message of one question or none it iterates the
  logging modules.
\<close>

theorem logging_requires_at_most_one_question:
  assumes "loggingPlugins g \<noteq> []"
  shows "((questionMsg st = None \<or> (\<exists>m. questionMsg st = Some m \<and> length (Question m) > 1)) \<longrightarrow>
            ApplyLoggingPlugins env g st w
              = (Some ErrUnexpectedNumberOfQuestions, st\<lparr>requestEnd := timeNow env w\<rparr>, w)) \<and>
         (\<forall>m. questionMsg st = Some m \<and> length (Question m) \<le> 1 \<longrightarrow>
            ApplyLoggingPlugins env g st w
              = loggingLoop (loggingPlugins g) (st\<lparr>requestEnd := timeNow env w\<rparr>) m w)"
  using assms by (auto simp: ApplyLoggingPlugins_def Let_def)

theorem logging_requires_at_most_one_question_witness:
  "ApplyLoggingPlugins exampleEnv (exampleGlobals\<lparr>loggingPlugins := [passPlugin]\<rparr>)
     (exampleState\<lparr>questionMsg := Some (exampleMsg [exampleQuestion, exampleQuestion])\<rparr>) 0
   = (Some ErrUnexpectedNumberOfQuestions,
      exampleState\<lparr>questionMsg := Some (exampleMsg [exampleQuestion, exampleQuestion]),
                   requestEnd := 1000 * Second\<rparr>, 0)
   \<and> ApplyLoggingPlugins exampleEnv (exampleGlobals\<lparr>loggingPlugins := [passPlugin]\<rparr>)
     (exampleState\<lparr>questionMsg := Some (exampleMsg [exampleQuestion])\<rparr>) 0
   = (None, exampleState\<lparr>questionMsg := Some (exampleMsg [exampleQuestion]),
                   requestEnd := 1000 * Second\<rparr>, 1)"
  using logging_requires_at_most_one_question [of "exampleGlobals\<lparr>loggingPlugins := [passPlugin]\<rparr>"
      "exampleState\<lparr>questionMsg := Some (exampleMsg [exampleQuestion, exampleQuestion])\<rparr>" exampleEnv 0]
    logging_requires_at_most_one_question [of "exampleGlobals\<lparr>loggingPlugins := [passPlugin]\<rparr>"
      "exampleState\<lparr>questionMsg := Some (exampleMsg [exampleQuestion])\<rparr>" exampleEnv 0]
  by (simp add: plugin_defs exampleEnv_def)

end
